theory Spec2Isabelle
  imports Complex_Main
begin

section \<open>ESB Fleet Planner: the simulation engine\<close>

text \<open>
  A shallow embedding of the simulation engine (\<^verbatim>\<open>simulation.js\<close>), the parts of the
  application state it mutates (\<^verbatim>\<open>state.js\<close>), the configuration constants it reads
  (\<^verbatim>\<open>config.js\<close>) and the geometry helpers it calls (\<^verbatim>\<open>utils.js\<close>).

  JavaScript numbers are modelled as \<^typ>\<open>real\<close>: arithmetic is exact, there is no NaN and
  no rounding, so every \<^verbatim>\<open>isNaN\<close> guard of the source is the branch "not NaN". Counters that
  the source only ever increments from zero are \<^typ>\<open>nat\<close>. A value that can be
  \<^verbatim>\<open>null\<close> is an \<^typ>\<open>'a option\<close>. The wall clock \<^verbatim>\<open>Date.now()\<close> is an argument
  \<open>now\<close> of every function that reads it, and the body of a \<^verbatim>\<open>setTimeout\<close> callback is a
  function of its own. Console output, DOM updates and map rendering are left out, as are
  fields that the engine only writes for display (names, icons, trip-phase labels).
\<close>

subsection \<open>Configuration (\<^verbatim>\<open>config.js\<close>)\<close>

datatype bus_type = TypeA | TypeC

datatype weather = Fair | Cold | Extreme

text \<open>\<^verbatim>\<open>ESB_EFFICIENCY\<close>, in kWh per mile.\<close>

fun ESB_EFFICIENCY :: "bus_type \<Rightarrow> weather \<Rightarrow> real" where
  "ESB_EFFICIENCY TypeA Fair = 1.3"
| "ESB_EFFICIENCY TypeA Cold = 1.6"
| "ESB_EFFICIENCY TypeA Extreme = 1.9"
| "ESB_EFFICIENCY TypeC Fair = 1.3 * 1.5"
| "ESB_EFFICIENCY TypeC Cold = 1.6 * 1.5"
| "ESB_EFFICIENCY TypeC Extreme = 1.9 * 1.5"

definition FUEL_COSTS_electric_overnight :: real where
  "FUEL_COSTS_electric_overnight = 0.18"

definition FUEL_COSTS_electric_daytime :: real where
  "FUEL_COSTS_electric_daytime = 0.36"

definition BATTERY_CONFIG_safetyBuffer :: real where
  "BATTERY_CONFIG_safetyBuffer = 0.15"

definition BATTERY_CONFIG_minReturnCharge :: real where
  "BATTERY_CONFIG_minReturnCharge = 0.15"

definition BATTERY_CONFIG_chargingRateKwhPerHour :: real where
  "BATTERY_CONFIG_chargingRateKwhPerHour = 50"

definition SIMULATION_CONFIG_arrivalThreshold :: real where
  "SIMULATION_CONFIG_arrivalThreshold = 0.1"

definition SIMULATION_CONFIG_baseSpeedMph :: real where
  "SIMULATION_CONFIG_baseSpeedMph = 25"

definition TIME_WINDOWS_amTripStart :: real where "TIME_WINDOWS_amTripStart = 5"
definition TIME_WINDOWS_amTripEnd :: real where "TIME_WINDOWS_amTripEnd = 9"
definition TIME_WINDOWS_midDayStart :: real where "TIME_WINDOWS_midDayStart = 9"
definition TIME_WINDOWS_midDayEnd :: real where "TIME_WINDOWS_midDayEnd = 12"
definition TIME_WINDOWS_pmTripStart :: real where "TIME_WINDOWS_pmTripStart = 12"
definition TIME_WINDOWS_pmTripEnd :: real where "TIME_WINDOWS_pmTripEnd = 16"

definition MIDDAY_CHARGING_energyCostDeadhead :: real where
  "MIDDAY_CHARGING_energyCostDeadhead = 1.5"

definition MIDDAY_CHARGING_maxChargingDuration :: real where
  "MIDDAY_CHARGING_maxChargingDuration = 3"

definition DIESEL_MPG_typeA :: real where "DIESEL_MPG_typeA = 9"
definition DIESEL_MPG_typeC :: real where "DIESEL_MPG_typeC = 6"
definition CO2_CONFIG_poundsPerGallon :: real where "CO2_CONFIG_poundsPerGallon = 19.4"
definition CO2_CONFIG_typeCMultiplier :: real where "CO2_CONFIG_typeCMultiplier = 1.5"

definition SCORING_dayCompleted :: real where "SCORING_dayCompleted = 100"
definition SCORING_noMidDayChargeBonus :: real where "SCORING_noMidDayChargeBonus = 150"
definition SCORING_midDayChargePenalty :: real where "SCORING_midDayChargePenalty = - 50"
definition SCORING_efficientChargeBonus :: real where "SCORING_efficientChargeBonus = 75"
definition SCORING_overchargePerKwhPenalty :: real where "SCORING_overchargePerKwhPenalty = - 2"
definition SCORING_perfectRoutePrediction :: real where "SCORING_perfectRoutePrediction = 500"
definition SCORING_perfectWeekBonus :: real where "SCORING_perfectWeekBonus = 1000"

datatype difficulty = Easy | Medium | Hard | Expert

fun SCORING_difficultyMultiplier :: "difficulty \<Rightarrow> real" where
  "SCORING_difficultyMultiplier Easy = 1.0"
| "SCORING_difficultyMultiplier Medium = 1.5"
| "SCORING_difficultyMultiplier Hard = 2.0"
| "SCORING_difficultyMultiplier Expert = 3.0"

text \<open>
  \<^verbatim>\<open>WEATHER_PATTERNS\<close>: the three-day schedule and the difficulty of each pattern. A key
  that names no pattern is \<open>None\<close>; the callers then fall back to the pattern \<^verbatim>\<open>fall\<close>.
\<close>

record weather_pattern =
  pattern_schedule :: "(nat \<times> weather) list"
  pattern_difficulty :: difficulty

definition WEATHER_PATTERNS_fall :: weather_pattern where
  "WEATHER_PATTERNS_fall =
     \<lparr>pattern_schedule = [(1, Fair), (2, Cold), (3, Extreme)], pattern_difficulty = Medium\<rparr>"

definition WEATHER_PATTERNS :: "string \<Rightarrow> weather_pattern option" where
  "WEATHER_PATTERNS k =
     (if k = ''spring'' then
        Some \<lparr>pattern_schedule = [(1, Fair), (2, Fair), (3, Cold)], pattern_difficulty = Easy\<rparr>
      else if k = ''fall'' then Some WEATHER_PATTERNS_fall
      else if k = ''winter'' then
        Some \<lparr>pattern_schedule = [(1, Cold), (2, Extreme), (3, Extreme)], pattern_difficulty = Hard\<rparr>
      else if k = ''polar'' then
        Some \<lparr>pattern_schedule = [(1, Extreme), (2, Extreme), (3, Extreme)],
              pattern_difficulty = Expert\<rparr>
      else None)"

subsection \<open>JavaScript idioms\<close>

text \<open>\<^verbatim>\<open>x || d\<close> on a number that may be \<^verbatim>\<open>null\<close>: \<^verbatim>\<open>null\<close> and \<open>0\<close> are falsy.\<close>

definition truthy :: "real option \<Rightarrow> bool" where
  "truthy x = (case x of None \<Rightarrow> False | Some v \<Rightarrow> v \<noteq> 0)"

definition or_else :: "real option \<Rightarrow> real \<Rightarrow> real" where
  "or_else x d = (case x of None \<Rightarrow> d | Some v \<Rightarrow> if v = 0 then d else v)"

text \<open>\<^verbatim>\<open>Math.round\<close> rounds to the nearest integer, a half towards plus infinity.\<close>

definition Math_round :: "real \<Rightarrow> real" where
  "Math_round x = of_int \<lfloor>x + 1 / 2\<rfloor>"

definition Math_floor :: "real \<Rightarrow> real" where
  "Math_floor x = of_int \<lfloor>x\<rfloor>"

text \<open>
  \<^verbatim>\<open>Math.atan2(y, x)\<close>, the angle of the point \<open>(x, y)\<close> in \<open>(-\<pi>, \<pi>]\<close>.
\<close>

definition Math_atan2 :: "real \<Rightarrow> real \<Rightarrow> real" where
  "Math_atan2 y x =
     (if 0 < x then arctan (y / x)
      else if x < 0 \<and> 0 \<le> y then arctan (y / x) + pi
      else if x < 0 \<and> y < 0 then arctan (y / x) - pi
      else if 0 < y then pi / 2
      else if y < 0 then - (pi / 2)
      else 0)"

subsection \<open>Geometry (\<^verbatim>\<open>utils.js\<close>)\<close>

text \<open>A coordinate is the pair \<^verbatim>\<open>[lng, lat]\<close> in degrees.\<close>

type_synonym coord = "real \<times> real"

definition haversineDistance :: "coord \<Rightarrow> coord \<Rightarrow> real" where
  "haversineDistance coord1 coord2 =
     (let R = 3959;
          lat1 = snd coord1 * pi / 180;
          lat2 = snd coord2 * pi / 180;
          dLat = (snd coord2 - snd coord1) * pi / 180;
          dLng = (fst coord2 - fst coord1) * pi / 180;
          a = sin (dLat / 2) * sin (dLat / 2)
              + cos lat1 * cos lat2 * sin (dLng / 2) * sin (dLng / 2);
          c = 2 * Math_atan2 (sqrt a) (sqrt (1 - a))
      in R * c)"

definition lerp :: "real \<Rightarrow> real \<Rightarrow> real \<Rightarrow> real" where
  "lerp start end' t = start + (end' - start) * t"

text \<open>The segment lengths of a path: the first loop of \<^verbatim>\<open>interpolatePosition\<close>.\<close>

fun segmentLengths :: "coord list \<Rightarrow> real list" where
  "segmentLengths (p # q # ps) = haversineDistance p q # segmentLengths (q # ps)"
| "segmentLengths _ = []"

definition calculatePathLength :: "coord list \<Rightarrow> real" where
  "calculatePathLength path = (if length path < 2 then 0 else sum_list (segmentLengths path))"

text \<open>
  The second loop of \<^verbatim>\<open>interpolatePosition\<close>: walk the segments, skipping those of length
  zero, until the accumulated distance reaches the target. The arguments are the rest of
  the path (from point \<open>i\<close>), the rest of the segment lengths, the target and the
  accumulated distance; \<open>lst\<close> is the last point of the whole path.
\<close>

fun interpolateWalk :: "coord \<Rightarrow> coord list \<Rightarrow> real list \<Rightarrow> real \<Rightarrow> real \<Rightarrow> coord" where
  "interpolateWalk lst (p # q # ps) (l # ls) targetDistance accumulatedDistance =
     (if l = 0 then interpolateWalk lst (q # ps) ls targetDistance accumulatedDistance
      else if accumulatedDistance + l \<ge> targetDistance then
        (let segmentProgress = (targetDistance - accumulatedDistance) / l
         in (lerp (fst p) (fst q) segmentProgress, lerp (snd p) (snd q) segmentProgress))
      else interpolateWalk lst (q # ps) ls targetDistance (accumulatedDistance + l))"
| "interpolateWalk lst _ _ targetDistance accumulatedDistance = lst"

definition interpolatePosition :: "coord list \<Rightarrow> real \<Rightarrow> coord" where
  "interpolatePosition path progress =
     (if path = [] then (0, 0)
      else if length path = 1 then hd path
      else
        (let progress = max 0 (min 1 progress) in
         if progress \<le> 0 then hd path
         else if progress \<ge> 1 then last path
         else
           (let segs = segmentLengths path;
                totalLength = sum_list segs
            in if totalLength = 0 then hd path
               else interpolateWalk (last path) path segs (progress * totalLength) 0)))"

subsection \<open>Progress/time mapper\<close>

definition calculateTimeFromProgress :: "real \<Rightarrow> real \<Rightarrow> bool \<Rightarrow> real" where
  "calculateTimeFromProgress progress chargingTimeHours atSchool =
     (if progress < 0.5 \<and> \<not> atSchool then
        (let amProgress = progress / 0.5;
             amHours = TIME_WINDOWS_amTripEnd - TIME_WINDOWS_amTripStart
         in TIME_WINDOWS_amTripStart + amProgress * amHours)
      else if atSchool \<or> chargingTimeHours > 0 then
        (let chargingStartTime = TIME_WINDOWS_midDayStart;
             currentChargingTime =
               min chargingTimeHours (TIME_WINDOWS_midDayEnd - TIME_WINDOWS_midDayStart)
         in chargingStartTime + currentChargingTime)
      else
        (let pmProgress = (progress - 0.5) / 0.5;
             pmHours = TIME_WINDOWS_pmTripEnd - TIME_WINDOWS_pmTripStart
         in TIME_WINDOWS_pmTripStart + pmProgress * pmHours))"

definition getEfficiency :: "bus_type \<Rightarrow> weather \<Rightarrow> real" where
  "getEfficiency busType w = ESB_EFFICIENCY busType w"

subsection \<open>Application state (\<^verbatim>\<open>state.js\<close>)\<close>

text \<open>
  The fields keep the names of the source. Where two objects of the source have a field of
  the same name, or a name is taken in HOL, the field carries the name of its object:
  \<open>route_path\<close>, \<open>route_status\<close>, \<open>stop_type\<close>, \<open>score_total\<close>, \<open>config_busType\<close>.
\<close>

datatype stop_type = Depot | Pickup | School | Dropoff

record stop =
  stop_type :: stop_type
  coords :: coord
  completed :: bool

datatype route_status = RWaiting | RActive | RCharging | RDeadhead | RCompleted | RFailed

record route =
  route_path :: "coord list"
  stops :: "stop list"
  distance :: real
  route_status :: route_status

datatype bus_status =
  Waiting | Moving | Dwelling | AtSchool | TravelingToCharger | Charging
  | ReturningFromCharger | Completed | Stranded

record bus =
  busType :: bus_type
  position :: "coord option"
  progress :: real
  currentStopIndex :: nat
  batteryCapacity :: real
  batteryLevel :: real
  batteryKwh :: real
  energyConsumed :: real
  distanceTraveled :: real
  status :: bus_status
  dwellUntil :: "real option"
  needsMidDayCharge :: bool
  midDayChargeChecked :: bool
  arrivedAtSchool :: bool
  isCharging :: bool
  usedMidDayCharge :: bool
  chargingTimeHours :: real
  chargingRate :: "real option"
  chargingKwhPerHour :: "real option"
  targetChargeKwh :: "real option"
  chargerDestination :: "coord option"
  needsReturnTrip :: bool
  returnDestination :: "coord option"
  returnDistance :: "real option"
  returnProgress :: "real option"
  returnPath :: "coord list option"
  originalPosition :: "coord option"
  deadheadProgress :: "real option"
  deadheadDistance :: "real option"
  deadheadPath :: "coord list option"
  deadheadStartPosition :: "coord option"


record stats =
  totalDistance :: real
  totalEnergyConsumed :: real
  electricCost :: real
  midDayCharges :: nat
  midDayChargingCost :: real
  midDayChargingKwh :: real
  nightlyChargingKwh :: real
  nightlyChargingCost :: real
  completedRoutes :: nat
  co2Avoided :: real
  pickupsCompleted :: nat
  v2gEarnings :: real
  v2gKwhDischarged :: real

record day_result =
  result_day :: nat
  result_weather :: weather
  midDayCharged :: bool
  result_cost :: real
  result_distance :: real
  result_energyConsumed :: real

record week =
  currentDay :: nat
  schedule :: "(nat \<times> weather) list"
  dayResults :: "day_result list"
  totalMidDayCharges :: nat
  totalMidDayCost :: real
  totalOvernightCost :: real
  totalV2GEarnings :: real
  totalV2GKwh :: real

text \<open>A bonus or a penalty: \<^verbatim>\<open>{ reason, points, day? }\<close>.\<close>

record score_entry =
  reason :: string
  points :: real
  entry_day :: "nat option"

text \<open>
  A day score: \<^verbatim>\<open>{ day, points, breakdown }\<close>. A line of the breakdown, such as
  \<^verbatim>\<open>+100 Day completed\<close>, is the pair of its number and its label.
\<close>

record day_score =
  score_day :: nat
  day_points :: real
  breakdown :: "(real \<times> string) list"

record score =
  score_total :: real
  dayScores :: "day_score list"
  bonuses :: "score_entry list"
  penalties :: "score_entry list"

record nightly_decision =
  decision_day :: nat
  targetPercent :: real
  startPercent :: real
  energyCharged :: real
  decision_cost :: real
  routeAdjusted :: bool
  newRouteDistance :: "real option"
  v2gAmount :: real
  v2gEarned :: real

record config =
  config_busType :: bus_type
  config_batteryCapacity :: real
  guessDistance :: real
  adjustedRouteDistance :: "real option"
  weatherPattern :: string

text \<open>
  The pending charging selection. The station list that the source stores with it comes
  from the charging station provider and is not read by the engine.
\<close>

record pending_charge =
  pending_energyNeeded :: real
  pending_currentBattery :: real
  pending_timeRemaining :: real

record simulation =
  running :: bool
  paused :: bool
  elapsedTime :: real
  speedMultiplier :: real
  currentTime :: real

text \<open>
  The global state. A scenario has exactly one route and one bus, so \<^verbatim>\<open>state.routes\<close> and
  \<^verbatim>\<open>state.buses\<close> are the fields \<open>route\<close> and \<open>bus\<close>, and looking the bus's route up by
  its id always finds \<open>route\<close>. The flag \<open>gameOver\<close> stands for the "Bus Stranded!" dialog
  that \<^verbatim>\<open>triggerGameOver\<close> shows.
\<close>

record state =
  config :: config
  week :: week
  weather :: weather
  nightlyCharging_decisions :: "nightly_decision list"
  route :: route
  bus :: bus
  simulation :: simulation
  stats :: stats
  score :: score
  pendingCharge :: "pending_charge option"
  showNightlyChargingModal :: bool
  gameOver :: bool

definition addDayScore :: "day_score \<Rightarrow> state \<Rightarrow> state" where
  "addDayScore dayScore s =
     s\<lparr>score := (score s)\<lparr>dayScores := dayScores (score s) @ [dayScore],
                            score_total := score_total (score s) + day_points dayScore\<rparr>\<rparr>"

definition addBonus :: "score_entry \<Rightarrow> state \<Rightarrow> state" where
  "addBonus bonus s =
     s\<lparr>score := (score s)\<lparr>bonuses := bonuses (score s) @ [bonus],
                            score_total := score_total (score s) + points bonus\<rparr>\<rparr>"

definition addPenalty :: "score_entry \<Rightarrow> state \<Rightarrow> state" where
  "addPenalty penalty s =
     s\<lparr>score := (score s)\<lparr>penalties := penalties (score s) @ [penalty],
                            score_total := score_total (score s) + points penalty\<rparr>\<rparr>"

definition recordNightlyCharging :: "nightly_decision \<Rightarrow> state \<Rightarrow> state" where
  "recordNightlyCharging decision s =
     s\<lparr>nightlyCharging_decisions := nightlyCharging_decisions s @ [decision],
       week := (week s)\<lparr>totalOvernightCost := totalOvernightCost (week s) + decision_cost decision\<rparr>\<rparr>"

text \<open>\<^verbatim>\<open>advanceDay\<close> returns whether more days remain, and the new state.\<close>

definition advanceDay :: "state \<Rightarrow> bool \<times> state" where
  "advanceDay s =
     (let day = currentDay (week s);
          result = \<lparr>result_day = day, result_weather = weather s,
                    midDayCharged = (midDayCharges (stats s) > 0),
                    result_cost = electricCost (stats s),
                    result_distance = totalDistance (stats s),
                    result_energyConsumed = totalEnergyConsumed (stats s)\<rparr>;
          w = (week s)\<lparr>dayResults := dayResults (week s) @ [result],
                        totalMidDayCharges := totalMidDayCharges (week s) + midDayCharges (stats s),
                        totalMidDayCost := totalMidDayCost (week s) + midDayChargingCost (stats s),
                        currentDay := day + 1\<rparr>;
          s1 = s\<lparr>week := w\<rparr>;
          s2 = (case find (\<lambda>d. fst d = currentDay w) (schedule w) of
                  Some nextDaySchedule \<Rightarrow> s1\<lparr>weather := snd nextDaySchedule\<rparr>
                | None \<Rightarrow> s1)
      in (currentDay w \<le> 3, s2))"

definition resetStats :: "state \<Rightarrow> state" where
  "resetStats s =
     s\<lparr>stats := \<lparr>totalDistance = 0, totalEnergyConsumed = 0, electricCost = 0,
                  midDayCharges = 0, midDayChargingCost = 0, midDayChargingKwh = 0,
                  nightlyChargingKwh = 0, nightlyChargingCost = 0, completedRoutes = 0,
                  co2Avoided = 0, pickupsCompleted = 0, v2gEarnings = 0,
                  v2gKwhDischarged = 0\<rparr>\<rparr>"

definition resetSimulation :: "state \<Rightarrow> state" where
  "resetSimulation s =
     s\<lparr>simulation := \<lparr>running = False, paused = False, elapsedTime = 0, speedMultiplier = 1,
                       currentTime = 5.0\<rparr>\<rparr>"


subsection \<open>Simulation engine (\<^verbatim>\<open>simulation.js\<close>)\<close>

text \<open>
  \<^verbatim>\<open>calculateCO2Avoided\<close> compares the bus type with the string \<^verbatim>\<open>typeC\<close>, but a bus type
  is \<^verbatim>\<open>A\<close> or \<^verbatim>\<open>C\<close>: both comparisons of the source are false for every bus.
\<close>

definition calculateCO2Avoided :: "real \<Rightarrow> bus_type \<Rightarrow> real" where
  "calculateCO2Avoided distanceMiles busType' =
     (let mpg = DIESEL_MPG_typeA;
          gallonsAvoided = distanceMiles / mpg
      in gallonsAvoided * CO2_CONFIG_poundsPerGallon)"

definition initializeBuses :: "route \<Rightarrow> config \<Rightarrow> bus" where
  "initializeBuses r cfg =
     \<lparr>busType = config_busType cfg,
      position = Some (case route_path r of p # _ \<Rightarrow> p
                       | [] \<Rightarrow> (case stops r of st # _ \<Rightarrow> coords st | [] \<Rightarrow> (- 78.8, 42.8))),
      progress = 0,
      currentStopIndex = 0,
      batteryCapacity = config_batteryCapacity cfg,
      batteryLevel = 100,
      batteryKwh = config_batteryCapacity cfg,
      energyConsumed = 0,
      distanceTraveled = 0,
      status = Waiting,
      dwellUntil = None,
      needsMidDayCharge = False,
      midDayChargeChecked = False,
      arrivedAtSchool = False,
      isCharging = False,
      usedMidDayCharge = False,
      chargingTimeHours = 0,
      chargingRate = None,
      chargingKwhPerHour = None,
      targetChargeKwh = None,
      chargerDestination = None,
      needsReturnTrip = False,
      returnDestination = None,
      returnDistance = None,
      returnProgress = None,
      returnPath = None,
      originalPosition = None,
      deadheadProgress = None,
      deadheadDistance = None,
      deadheadPath = None,
      deadheadStartPosition = None\<rparr>"

definition resetBusForNewDay :: "real \<Rightarrow> state \<Rightarrow> state" where
  "resetBusForNewDay chargePercent s =
     (let b = bus s;
          r = route s;
          currentKwh = batteryKwh b;
          targetKwh = (chargePercent / 100) * batteryCapacity b;
          energyToAdd = max 0 (targetKwh - currentKwh);
          chargingCost = energyToAdd * FUEL_COSTS_electric_overnight;
          s1 = (if energyToAdd > 0 then
                  s\<lparr>week := (week s)\<lparr>totalOvernightCost :=
                                          totalOvernightCost (week s) + chargingCost\<rparr>,
                    stats := (stats s)\<lparr>nightlyChargingKwh :=
                                            nightlyChargingKwh (stats s) + energyToAdd,
                                          nightlyChargingCost :=
                                            nightlyChargingCost (stats s) + chargingCost\<rparr>\<rparr>
                else s)
      in s1\<lparr>bus := b\<lparr>position := (case route_path r of p # _ \<Rightarrow> Some p
                                      | [] \<Rightarrow> (case stops r of st # _ \<Rightarrow> Some (coords st)
                                                | [] \<Rightarrow> None)),
                       progress := 0,
                       currentStopIndex := 0,
                       batteryLevel := chargePercent,
                       batteryKwh := targetKwh,
                       energyConsumed := 0,
                       distanceTraveled := 0,
                       status := Waiting,
                       dwellUntil := None,
                       needsMidDayCharge := False,
                       midDayChargeChecked := False,
                       arrivedAtSchool := False,
                       isCharging := False,
                       usedMidDayCharge := False,
                       chargingTimeHours := 0,
                       chargingRate := None,
                       chargingKwhPerHour := None,
                       targetChargeKwh := None,
                       chargerDestination := None,
                       needsReturnTrip := False,
                       returnDestination := None,
                       returnDistance := None,
                       returnProgress := None,
                       returnPath := None,
                       originalPosition := None,
                       deadheadProgress := None,
                       deadheadDistance := None,
                       deadheadPath := None,
                       deadheadStartPosition := None\<rparr>,
             route := r\<lparr>stops := map (\<lambda>st. st\<lparr>completed := False\<rparr>) (stops r),
                         route_status := RWaiting\<rparr>\<rparr>)"

definition stopSimulation :: "state \<Rightarrow> state" where
  "stopSimulation s = s\<lparr>simulation := (simulation s)\<lparr>running := False, paused := False\<rparr>\<rparr>"

definition triggerGameOver :: "state \<Rightarrow> state" where
  "triggerGameOver s = (stopSimulation s)\<lparr>gameOver := True\<rparr>"

text \<open>
  \<^verbatim>\<open>checkChargingNeeds\<close> returns whether mid-day charging is needed, and the new state.
\<close>

definition checkChargingNeeds :: "state \<Rightarrow> bool \<times> state" where
  "checkChargingNeeds s =
     (let b = bus s; r = route s in
      if isCharging b \<or> midDayChargeChecked b \<or> status b = TravelingToCharger then (False, s)
      else if find (\<lambda>st. stop_type st = School) (stops r) = None then (False, s)
      else
        (let b1 = b\<lparr>midDayChargeChecked := True\<rparr>;
             remainingDistance = distance r / 2;
             efficiency = getEfficiency (busType b) (weather s);
             energyNeeded = remainingDistance * efficiency;
             batteryAtDepot = batteryKwh b - energyNeeded;
             batteryPercentAtDepot = (batteryAtDepot / batteryCapacity b) * 100;
             needsCharging = (batteryPercentAtDepot < BATTERY_CONFIG_minReturnCharge * 100)
         in if needsCharging then
              (let targetBatteryAtDepot = batteryCapacity b * BATTERY_CONFIG_minReturnCharge;
                   energyToAdd = max 0 ((targetBatteryAtDepot + energyNeeded) - batteryKwh b);
                   s1 = stopSimulation (s\<lparr>bus := b1\<lparr>needsMidDayCharge := True\<rparr>\<rparr>)
               in (True,
                   s1\<lparr>pendingCharge :=
                        Some \<lparr>pending_energyNeeded = energyToAdd,
                              pending_currentBattery = batteryLevel b,
                              pending_timeRemaining =
                                TIME_WINDOWS_midDayEnd - currentTime (simulation s)\<rparr>\<rparr>))
            else (False, s\<lparr>bus := b1\<rparr>)))"

text \<open>
  \<^verbatim>\<open>processStopArrival\<close>. The timer it starts is \<open>dwellTimeout\<close> below.
\<close>

definition processStopArrival :: "real \<Rightarrow> stop \<Rightarrow> state \<Rightarrow> state" where
  "processStopArrival now currentStop s =
     (if stop_type currentStop = School \<and> \<not> midDayChargeChecked (bus s) then
        (let s1 = s\<lparr>bus := (bus s)\<lparr>arrivedAtSchool := True, status := AtSchool\<rparr>\<rparr>;
             res = checkChargingNeeds s1;
             needsCharging = fst res;
             s2 = snd res
         in if \<not> needsCharging then
              s2\<lparr>bus := (bus s2)\<lparr>dwellUntil := Some (now + 2000), status := Dwelling\<rparr>\<rparr>
            else s2)
      else if stop_type currentStop = Pickup \<or> stop_type currentStop = Dropoff then
        (let avgStopDistance = 2;
             co2 = calculateCO2Avoided avgStopDistance (busType (bus s));
             s1 = s\<lparr>stats := (stats s)\<lparr>co2Avoided := co2Avoided (stats s) + co2,
                                        pickupsCompleted := pickupsCompleted (stats s) + 1\<rparr>\<rparr>;
             dwellTime = 500
         in s1\<lparr>bus := (bus s1)\<lparr>dwellUntil := Some (now + dwellTime), status := Dwelling\<rparr>\<rparr>)
      else s)"

text \<open>The body of the timers started on a dwell.\<close>

definition dwellTimeout :: "state \<Rightarrow> state" where
  "dwellTimeout s = (if status (bus s) = Dwelling then s\<lparr>bus := (bus s)\<lparr>status := Moving\<rparr>\<rparr> else s)"

definition currentStopIndex_bump :: "state \<Rightarrow> state" where
  "currentStopIndex_bump s = s\<lparr>bus := (bus s)\<lparr>currentStopIndex := currentStopIndex (bus s) + 1\<rparr>\<rparr>"

text \<open>
  The loop of \<^verbatim>\<open>checkStopArrivals\<close>. The distance is measured from the position of the bus,
  which \<^verbatim>\<open>moveBus\<close> has just assigned; with no position the source would raise.
\<close>

function checkStopArrivalsLoop :: "real \<Rightarrow> nat \<Rightarrow> state \<Rightarrow> state" where
  "checkStopArrivalsLoop now stopsProcessed s =
     (if stopsProcessed < 3 \<and> currentStopIndex (bus s) < length (stops (route s)) then
        (if completed (stops (route s) ! currentStopIndex (bus s)) then
           checkStopArrivalsLoop now stopsProcessed
             (s\<lparr>bus := (bus s)\<lparr>currentStopIndex := currentStopIndex (bus s) + 1\<rparr>\<rparr>)
         else if (case position (bus s) of None \<Rightarrow> False
                  | Some pos \<Rightarrow>
                      haversineDistance pos (coords (stops (route s) ! currentStopIndex (bus s)))
                        < max SIMULATION_CONFIG_arrivalThreshold 0.15) then
           checkStopArrivalsLoop now (stopsProcessed + 1)
             (currentStopIndex_bump
               (processStopArrival now
                 ((stops (route s) ! currentStopIndex (bus s))\<lparr>completed := True\<rparr>)
                 (s\<lparr>route := (route s)\<lparr>stops :=
                      (stops (route s))[currentStopIndex (bus s) :=
                         (stops (route s) ! currentStopIndex (bus s))\<lparr>completed := True\<rparr>]\<rparr>\<rparr>)))
         else s)
      else s)"
  by pat_completeness auto


termination
  by (relation "measure (\<lambda>(now, n, s). length (stops (route s)) - currentStopIndex (bus s))")
     (auto simp: currentStopIndex_bump_def processStopArrival_def checkChargingNeeds_def
        stopSimulation_def Let_def)

definition checkStopArrivals :: "real \<Rightarrow> state \<Rightarrow> state" where
  "checkStopArrivals now s =
     (if currentStopIndex (bus s) \<ge> length (stops (route s)) then s
      else checkStopArrivalsLoop now 0 s)"

definition completeRoute :: "state \<Rightarrow> state" where
  "completeRoute s =
     s\<lparr>bus := (bus s)\<lparr>status := Completed, progress := 1\<rparr>,
       route := (route s)\<lparr>route_status := RCompleted,
                           stops := map (\<lambda>st. st\<lparr>completed := True\<rparr>) (stops (route s))\<rparr>,
       stats := (stats s)\<lparr>completedRoutes := completedRoutes (stats s) + 1\<rparr>\<rparr>"

text \<open>The bus is out of battery: both places where \<^verbatim>\<open>moveBus\<close> ends the game.\<close>

definition strand :: "state \<Rightarrow> state" where
  "strand s =
     triggerGameOver
       (s\<lparr>bus := (bus s)\<lparr>batteryKwh := 0, batteryLevel := 0, status := Stranded\<rparr>,
          route := (route s)\<lparr>route_status := RFailed\<rparr>\<rparr>)"

text \<open>
  The first half of a \<^verbatim>\<open>moveBus\<close> step that moves: progress, position, energy and the
  statistics, up to the second battery check.
\<close>

definition moveBus_advance :: "real \<Rightarrow> real \<Rightarrow> state \<Rightarrow> state" where
  "moveBus_advance distanceToTravel pathLength s =
     (let b = bus s;
          progressIncrement = distanceToTravel / pathLength;
          newProgress = min 1 (progress b + progressIncrement);
          newPosition = interpolatePosition (route_path (route s)) newProgress;
          efficiency = getEfficiency (busType b) (weather s);
          energyUsed = distanceToTravel * efficiency;
          newKwh = max 0 (batteryKwh b - energyUsed)
      in s\<lparr>bus := b\<lparr>progress := newProgress,
                      position := Some newPosition,
                      energyConsumed := energyConsumed b + energyUsed,
                      batteryKwh := newKwh,
                      batteryLevel := (newKwh / batteryCapacity b) * 100,
                      distanceTraveled := distanceTraveled b + distanceToTravel\<rparr>,
            stats := (stats s)\<lparr>totalDistance := totalDistance (stats s) + distanceToTravel,
                                totalEnergyConsumed :=
                                  totalEnergyConsumed (stats s) + energyUsed\<rparr>\<rparr>)"

text \<open>
  The second half: the fallback mid-day check by progress, and the completion of the
  route. The timer of the fallback's dwell is \<open>dwellTimeout\<close>.
\<close>

definition moveBus_finish :: "real \<Rightarrow> state \<Rightarrow> state" where
  "moveBus_finish now s =
     (let b = bus s in
      if progress b \<ge> 0.48 \<and> progress b \<le> 0.52 \<and> \<not> midDayChargeChecked b
         \<and> \<not> arrivedAtSchool b then
        (let s1 = s\<lparr>bus := b\<lparr>arrivedAtSchool := True, status := AtSchool\<rparr>\<rparr>;
             res = checkChargingNeeds s1;
             needsCharging = fst res;
             s2 = snd res
         in if \<not> needsCharging then
              s2\<lparr>bus := (bus s2)\<lparr>dwellUntil := Some (now + 1000), status := Dwelling\<rparr>\<rparr>
            else s2)
      else if progress b \<ge> 0.99 then completeRoute s
      else s)"

definition moveBus :: "real \<Rightarrow> real \<Rightarrow> state \<Rightarrow> state" where
  "moveBus now deltaTime s =
     (if length (route_path (route s)) < 2 then s
      else if batteryKwh (bus s) \<le> 0 \<and> \<not> isCharging (bus s) then strand s
      else
        (let speedMph = SIMULATION_CONFIG_baseSpeedMph;
             hoursElapsed = deltaTime / (3600 * 1000);
             distanceToTravel = speedMph * hoursElapsed;
             pathLength = calculatePathLength (route_path (route s))
         in if pathLength = 0 then s
            else
              (let s1 = moveBus_advance distanceToTravel pathLength s
               in if batteryKwh (bus s1) \<le> 0 \<and> \<not> isCharging (bus s1) then strand s1
                  else moveBus_finish now (checkStopArrivals now s1))))"

text \<open>
  A bus that ran out of battery on a deadhead leg: there the source sets the status only,
  the battery having been clamped just before.
\<close>

definition strand_deadhead :: "state \<Rightarrow> state" where
  "strand_deadhead s =
     triggerGameOver
       (s\<lparr>bus := (bus s)\<lparr>status := Stranded\<rparr>, route := (route s)\<lparr>route_status := RFailed\<rparr>\<rparr>)"

definition handleDeadheadTravel :: "real \<Rightarrow> state \<Rightarrow> state" where
  "handleDeadheadTravel deltaTime s =
     (let b = bus s in
      case (chargerDestination b, deadheadDistance b) of
        (Some dest, Some dd) \<Rightarrow>
          if dd = 0 then
            s\<lparr>bus := b\<lparr>isCharging := True, status := Charging\<rparr>,
              route := (route s)\<lparr>route_status := RCharging\<rparr>\<rparr>
          else
            (let speedMph = SIMULATION_CONFIG_baseSpeedMph;
                 hoursElapsed = deltaTime / (3600 * 1000);
                 distanceToTravel = speedMph * hoursElapsed;
                 newProgress = or_else (deadheadProgress b) 0 + distanceToTravel;
                 efficiency = getEfficiency (busType b) (weather s);
                 energyUsed = distanceToTravel * efficiency * MIDDAY_CHARGING_energyCostDeadhead;
                 newKwh = max 0 (batteryKwh b - energyUsed);
                 b1 = b\<lparr>deadheadProgress := Some newProgress,
                        distanceTraveled := distanceTraveled b + distanceToTravel,
                        batteryKwh := newKwh,
                        batteryLevel := (newKwh / batteryCapacity b) * 100,
                        energyConsumed := energyConsumed b + energyUsed\<rparr>;
                 s1 = s\<lparr>bus := b1,
                        stats := (stats s)\<lparr>totalDistance :=
                                              totalDistance (stats s) + distanceToTravel,
                                            totalEnergyConsumed :=
                                              totalEnergyConsumed (stats s) + energyUsed\<rparr>\<rparr>
             in if newKwh \<le> 0 then strand_deadhead s1
                else
                  (let legProgress = min 1 (newProgress / dd);
                       startPos = (case deadheadStartPosition b1 of Some p \<Rightarrow> Some p
                                   | None \<Rightarrow> position b1);
                       newPosition =
                         (case deadheadPath b1 of
                            Some p \<Rightarrow>
                              if length p > 1 then Some (interpolatePosition p legProgress)
                              else (case startPos of
                                      Some sp \<Rightarrow> Some (fst sp + (fst dest - fst sp) * legProgress,
                                                       snd sp + (snd dest - snd sp) * legProgress)
                                    | None \<Rightarrow> position b1)
                          | None \<Rightarrow>
                              (case startPos of
                                 Some sp \<Rightarrow> Some (fst sp + (fst dest - fst sp) * legProgress,
                                                  snd sp + (snd dest - snd sp) * legProgress)
                               | None \<Rightarrow> position b1));
                       b2 = b1\<lparr>position := newPosition\<rparr>
                   in if newProgress \<ge> dd then
                        (let returnEnergy = dd * efficiency * MIDDAY_CHARGING_energyCostDeadhead
                         in s1\<lparr>bus := b2\<lparr>position := Some dest,
                                         isCharging := True,
                                         status := Charging,
                                         targetChargeKwh :=
                                           Some (min (batteryCapacity b2 * 0.9)
                                                   ((case targetChargeKwh b2 of None \<Rightarrow> 0
                                                     | Some t \<Rightarrow> t) + returnEnergy)),
                                         needsReturnTrip := True,
                                         returnDestination := originalPosition b2,
                                         returnDistance := Some dd,
                                         returnPath := map_option rev (deadheadPath b2)\<rparr>,
                               route := (route s1)\<lparr>route_status := RCharging\<rparr>\<rparr>)
                      else s1\<lparr>bus := b2\<rparr>))
      | _ \<Rightarrow>
          s\<lparr>bus := b\<lparr>isCharging := True, status := Charging\<rparr>,
            route := (route s)\<lparr>route_status := RCharging\<rparr>\<rparr>)"


definition handleCharging :: "real \<Rightarrow> state \<Rightarrow> state" where
  "handleCharging deltaTime s =
     (let b = bus s;
          chargingRateKwhPerHour =
            or_else (chargingKwhPerHour b) BATTERY_CONFIG_chargingRateKwhPerHour;
          hoursElapsed = deltaTime / (3600 * 1000);
          newChargingTime = chargingTimeHours b + hoursElapsed;
          energyAdded = chargingRateKwhPerHour * hoursElapsed;
          previousKwh = batteryKwh b;
          newKwh = min (batteryCapacity b) (batteryKwh b + energyAdded);
          newLevel = (newKwh / batteryCapacity b) * 100;
          actualEnergyAdded = newKwh - previousKwh;
          rate = or_else (chargingRate b) FUEL_COSTS_electric_daytime;
          chargingCost = actualEnergyAdded * rate;
          targetKwh = or_else (targetChargeKwh b) (batteryCapacity b * 0.80);
          maxChargingHours = MIDDAY_CHARGING_maxChargingDuration;
          chargingWindowExpired = (newChargingTime \<ge> maxChargingHours);
          b1 = b\<lparr>chargingTimeHours := newChargingTime,
                 batteryKwh := newKwh,
                 batteryLevel := newLevel\<rparr>;
          s1 = s\<lparr>bus := b1,
                 stats := (stats s)\<lparr>electricCost := electricCost (stats s) + chargingCost,
                                     midDayChargingCost :=
                                       midDayChargingCost (stats s) + chargingCost,
                                     midDayChargingKwh :=
                                       midDayChargingKwh (stats s) + actualEnergyAdded\<rparr>\<rparr>
      in if newKwh \<ge> targetKwh \<or> newLevel \<ge> 95 \<or> chargingWindowExpired then
           (let b2 = b1\<lparr>isCharging := False, chargingTimeHours := 0\<rparr>
            in if needsReturnTrip b2 \<and> returnDestination b2 \<noteq> None then
                 s1\<lparr>bus := b2\<lparr>status := ReturningFromCharger, returnProgress := Some 0\<rparr>,
                    route := (route s1)\<lparr>route_status := RDeadhead\<rparr>\<rparr>
               else
                 s1\<lparr>bus := b2\<lparr>status := Moving,
                                targetChargeKwh := None,
                                chargingRate := None,
                                chargingKwhPerHour := None\<rparr>,
                    route := (route s1)\<lparr>route_status := RActive\<rparr>\<rparr>)
         else s1)"

definition handleReturnFromCharger :: "real \<Rightarrow> state \<Rightarrow> state" where
  "handleReturnFromCharger deltaTime s =
     (let b = bus s in
      case (returnDestination b, returnDistance b) of
        (Some dest, Some rd) \<Rightarrow>
          if rd = 0 then
            s\<lparr>bus := b\<lparr>status := Moving\<rparr>, route := (route s)\<lparr>route_status := RActive\<rparr>\<rparr>
          else
            (let speedMph = SIMULATION_CONFIG_baseSpeedMph;
                 hoursElapsed = deltaTime / (3600 * 1000);
                 distanceToTravel = speedMph * hoursElapsed;
                 newProgress = or_else (returnProgress b) 0 + distanceToTravel;
                 efficiency = getEfficiency (busType b) (weather s);
                 energyUsed = distanceToTravel * efficiency * MIDDAY_CHARGING_energyCostDeadhead;
                 newKwh = max 0 (batteryKwh b - energyUsed);
                 b1 = b\<lparr>returnProgress := Some newProgress,
                        distanceTraveled := distanceTraveled b + distanceToTravel,
                        batteryKwh := newKwh,
                        batteryLevel := (newKwh / batteryCapacity b) * 100,
                        energyConsumed := energyConsumed b + energyUsed\<rparr>;
                 s1 = s\<lparr>bus := b1,
                        stats := (stats s)\<lparr>totalDistance :=
                                              totalDistance (stats s) + distanceToTravel,
                                            totalEnergyConsumed :=
                                              totalEnergyConsumed (stats s) + energyUsed\<rparr>\<rparr>
             in if newKwh \<le> 0 then strand_deadhead s1
                else
                  (let legProgress = min 1 (newProgress / rd);
                       startPos = (case chargerDestination b1 of Some p \<Rightarrow> Some p
                                   | None \<Rightarrow> position b1);
                       newPosition =
                         (case returnPath b1 of
                            Some p \<Rightarrow>
                              if length p > 1 then Some (interpolatePosition p legProgress)
                              else (case startPos of
                                      Some sp \<Rightarrow> Some (fst sp + (fst dest - fst sp) * legProgress,
                                                       snd sp + (snd dest - snd sp) * legProgress)
                                    | None \<Rightarrow> position b1)
                          | None \<Rightarrow>
                              (case startPos of
                                 Some sp \<Rightarrow> Some (fst sp + (fst dest - fst sp) * legProgress,
                                                  snd sp + (snd dest - snd sp) * legProgress)
                               | None \<Rightarrow> position b1));
                       b2 = b1\<lparr>position := newPosition\<rparr>
                   in if newProgress \<ge> rd then
                        s1\<lparr>bus := b2\<lparr>position := Some dest,
                                       status := Moving,
                                       chargerDestination := None,
                                       deadheadProgress := None,
                                       deadheadDistance := None,
                                       deadheadStartPosition := None,
                                       deadheadPath := None,
                                       originalPosition := None,
                                       returnDestination := None,
                                       returnDistance := None,
                                       returnProgress := None,
                                       returnPath := None,
                                       needsReturnTrip := False,
                                       targetChargeKwh := None,
                                       chargingRate := None,
                                       chargingKwhPerHour := None\<rparr>,
                           route := (route s1)\<lparr>route_status := RActive\<rparr>\<rparr>
                      else s1\<lparr>bus := b2\<rparr>))
      | _ \<Rightarrow> s\<lparr>bus := b\<lparr>status := Moving\<rparr>, route := (route s)\<lparr>route_status := RActive\<rparr>\<rparr>)"

text \<open>
  \<^verbatim>\<open>updateBus\<close>, one tick of one bus: \<open>now\<close> is the wall clock and \<open>deltaTime\<close> the
  simulated milliseconds that have passed.
\<close>

definition updateBus :: "real \<Rightarrow> real \<Rightarrow> state \<Rightarrow> state" where
  "updateBus now deltaTime s =
     (if truthy (dwellUntil (bus s)) \<and> now < or_else (dwellUntil (bus s)) 0 then s
      else
        (let s0 = (if truthy (dwellUntil (bus s)) then s\<lparr>bus := (bus s)\<lparr>dwellUntil := None\<rparr>\<rparr>
                   else s)
         in if status (bus s0) = TravelingToCharger then handleDeadheadTravel deltaTime s0
            else if status (bus s0) = ReturningFromCharger then
              handleReturnFromCharger deltaTime s0
            else if isCharging (bus s0) then handleCharging deltaTime s0
            else
              (let s1 = (if status (bus s0) = Waiting then
                           s0\<lparr>bus := (bus s0)\<lparr>status := Moving\<rparr>,
                              route := (route s0)\<lparr>route_status := RActive\<rparr>\<rparr>
                         else s0)
               in if status (bus s1) = Moving then moveBus now deltaTime s1 else s1)))"

subsection \<open>Scoring\<close>

text \<open>
  \<^verbatim>\<open>calculateDayScore\<close>. The day's points and its breakdown are built up in steps, as the
  source does with its two mutable variables; \<open>efficient\<close> and \<open>overcharged\<close> are the two
  branches under "a decision was recorded for this day".
\<close>

definition calculateDayScore :: "state \<Rightarrow> state" where
  "calculateDayScore s =
     (let day = currentDay (week s);
          dayPoints0 = SCORING_dayCompleted;
          breakdown0 = [(SCORING_dayCompleted, ''Day completed'')];
          charged = (midDayCharges (stats s) > 0);
          dayPoints1 = (if charged then dayPoints0 + SCORING_midDayChargePenalty
                        else dayPoints0 + SCORING_noMidDayChargeBonus);
          breakdown1 = (if charged then
                          breakdown0 @ [(SCORING_midDayChargePenalty, ''Mid-day charging'')]
                        else breakdown0 @ [(SCORING_noMidDayChargeBonus, ''No mid-day charge'')]);
          s1 = (if charged then
                  addPenalty \<lparr>reason = ''Mid-day charging'',
                              points = SCORING_midDayChargePenalty,
                              entry_day = Some day\<rparr> s
                else s);
          lastNightDecision = find (\<lambda>d. decision_day d = day) (nightlyCharging_decisions s1);
          actualUsed =
            (totalEnergyConsumed (stats s1) / config_batteryCapacity (config s1)) * 100;
          endPercent = (case lastNightDecision of None \<Rightarrow> 0
                        | Some d \<Rightarrow> targetPercent d - actualUsed);
          efficient = (lastNightDecision \<noteq> None \<and> endPercent \<ge> 10 \<and> endPercent \<le> 25);
          overcharged = (lastNightDecision \<noteq> None \<and> \<not> efficient \<and> endPercent > 25);
          overchargeKwh = (endPercent - 25) / 100 * config_batteryCapacity (config s1);
          penalty = Math_round (overchargeKwh * SCORING_overchargePerKwhPenalty);
          dayPoints2 = (if efficient then dayPoints1 + SCORING_efficientChargeBonus
                        else if overcharged then dayPoints1 + penalty
                        else dayPoints1);
          breakdown2 = (if efficient then
                          breakdown1 @ [(SCORING_efficientChargeBonus, ''Efficient charging'')]
                        else if overcharged then breakdown1 @ [(penalty, ''Overcharged'')]
                        else breakdown1);
          s2 = (if efficient then
                  addBonus \<lparr>reason = ''Efficient overnight charging'',
                            points = SCORING_efficientChargeBonus,
                            entry_day = Some day\<rparr> s1
                else s1)
      in addDayScore \<lparr>score_day = day, day_points = dayPoints2, breakdown = breakdown2\<rparr> s2)"

fun difficulty_name :: "difficulty \<Rightarrow> string" where
  "difficulty_name Easy = ''Easy''"
| "difficulty_name Medium = ''Medium''"
| "difficulty_name Hard = ''Hard''"
| "difficulty_name Expert = ''Expert''"

text \<open>
  \<^verbatim>\<open>calculateFinalScore\<close>. Every difficulty has a multiplier and none is zero, so the
  default \<^verbatim>\<open>|| 1\<close> of the source is never taken.
\<close>

definition calculateFinalScore :: "state \<Rightarrow> state" where
  "calculateFinalScore s =
     (let pattern = (case WEATHER_PATTERNS (weatherPattern (config s)) of
                       Some p \<Rightarrow> p | None \<Rightarrow> WEATHER_PATTERNS_fall);
          efficiency = getEfficiency (config_busType (config s)) Extreme;
          usableCapacity = config_batteryCapacity (config s) * (1 - BATTERY_CONFIG_safetyBuffer);
          optimalOneWay = Math_floor ((usableCapacity / efficiency) / 2);
          s1 = (if \<bar>guessDistance (config s) - optimalOneWay\<bar> \<le> 3 then
                  addBonus \<lparr>reason = ''Perfect route prediction'',
                            points = SCORING_perfectRoutePrediction,
                            entry_day = None\<rparr> s
                else s);
          s2 = (if totalMidDayCharges (week s1) = 0 then
                  addBonus \<lparr>reason = ''Perfect week - no mid-day charges'',
                            points = SCORING_perfectWeekBonus,
                            entry_day = None\<rparr> s1
                else s1);
          multiplier = SCORING_difficultyMultiplier (pattern_difficulty pattern);
          bonusFromDifficulty = Math_round (score_total (score s2) * (multiplier - 1))
      in if multiplier \<noteq> 1 \<and> bonusFromDifficulty > 0 then
           addBonus \<lparr>reason = difficulty_name (pattern_difficulty pattern) @ '' difficulty bonus'',
                     points = bonusFromDifficulty,
                     entry_day = None\<rparr> s2
         else s2)"


subsection \<open>Day and week orchestration\<close>

text \<open>
  \<^verbatim>\<open>continueToNextDay\<close>. Regenerating the route is a request to the routing service:
  \<open>regenerated\<close> is its answer, \<open>None\<close> when the request fails, and the source then keeps
  the existing route. The restart of the simulation half a second later is a timer.
\<close>

definition continueToNextDay :: "real \<Rightarrow> real option \<Rightarrow> route option \<Rightarrow> state \<Rightarrow> state" where
  "continueToNextDay chargePercent newRouteDistance' regenerated s =
     (let s1 = resetSimulation (resetStats s);
          s2 = (if truthy newRouteDistance' then
                  (case regenerated of Some newRoute \<Rightarrow> s1\<lparr>route := newRoute\<rparr> | None \<Rightarrow> s1)
                else s1)
      in resetBusForNewDay chargePercent s2)"

definition confirmNightlyCharging ::
  "real \<Rightarrow> real option \<Rightarrow> real \<Rightarrow> real \<Rightarrow> route option \<Rightarrow> state \<Rightarrow> state" where
  "confirmNightlyCharging targetPercent' newRouteDistance' v2gAmount' v2gEarned' regenerated s =
     (let b = bus s;
          currentBatteryPercent = batteryLevel b;
          currentKwh = batteryKwh b;
          afterV2GKwh = currentKwh - v2gAmount';
          targetKwh = (targetPercent' / 100) * batteryCapacity b;
          energyToAdd = max 0 (targetKwh - afterV2GKwh);
          cost = energyToAdd * FUEL_COSTS_electric_overnight;
          s1 = (if v2gAmount' > 0 then
                  s\<lparr>stats := (stats s)\<lparr>v2gEarnings := v2gEarnings (stats s) + v2gEarned',
                                        v2gKwhDischarged :=
                                          v2gKwhDischarged (stats s) + v2gAmount'\<rparr>,
                    week := (week s)\<lparr>totalV2GEarnings :=
                                        totalV2GEarnings (week s) + v2gEarned',
                                      totalV2GKwh := totalV2GKwh (week s) + v2gAmount'\<rparr>\<rparr>
                else s);
          previousRouteDistance =
            or_else (adjustedRouteDistance (config s1)) (guessDistance (config s1));
          needsRouteRegeneration =
            (case newRouteDistance' of None \<Rightarrow> False | Some d \<Rightarrow> d \<noteq> previousRouteDistance);
          s2 = (case newRouteDistance' of
                  Some d \<Rightarrow> s1\<lparr>config := (config s1)\<lparr>adjustedRouteDistance := Some d\<rparr>\<rparr>
                | None \<Rightarrow> s1);
          s3 = recordNightlyCharging
                 \<lparr>decision_day = currentDay (week s2),
                  targetPercent = targetPercent',
                  startPercent = currentBatteryPercent,
                  energyCharged = energyToAdd,
                  decision_cost = cost,
                  routeAdjusted = needsRouteRegeneration,
                  newRouteDistance = newRouteDistance',
                  v2gAmount = v2gAmount',
                  v2gEarned = v2gEarned'\<rparr> s2;
          s4 = s3\<lparr>showNightlyChargingModal := False\<rparr>
      in continueToNextDay targetPercent'
           (if needsRouteRegeneration then newRouteDistance' else None) regenerated s4)"

definition showNightlyChargingDecision :: "state \<Rightarrow> state" where
  "showNightlyChargingDecision s =
     (let nextDay = currentDay (week s) in
      case find (\<lambda>d. fst d = nextDay) (schedule (week s)) of
        None \<Rightarrow> continueToNextDay 100 None None s
      | Some nextDaySchedule \<Rightarrow> s\<lparr>showNightlyChargingModal := True\<rparr>)"

text \<open>
  \<^verbatim>\<open>handleDayComplete\<close>. When the week is over the source also shows the result dialog
  and saves the score to the leaderboard.
\<close>

definition handleDayComplete :: "state \<Rightarrow> state" where
  "handleDayComplete s =
     (let s1 = stopSimulation s;
          baseEnergy = totalEnergyConsumed (stats s1) - midDayChargingKwh (stats s1);
          baseCost = baseEnergy * FUEL_COSTS_electric_overnight;
          s2 = s1\<lparr>stats := (stats s1)\<lparr>electricCost :=
                                          baseCost + midDayChargingCost (stats s1)\<rparr>\<rparr>;
          s3 = calculateDayScore s2;
          res = advanceDay s3;
          hasMoreDays = fst res;
          s4 = snd res
      in if hasMoreDays then showNightlyChargingDecision s4 else calculateFinalScore s4)"

text \<open>
  \<^verbatim>\<open>simulationLoop\<close>, one tick of the timer: \<open>deltaTime\<close> is the wall-clock time since
  the previous tick.
\<close>

definition simulationLoop :: "real \<Rightarrow> real \<Rightarrow> state \<Rightarrow> state" where
  "simulationLoop now deltaTime s =
     (if \<not> running (simulation s) \<or> paused (simulation s) then s
      else if pendingCharge s \<noteq> None then s
      else if showNightlyChargingModal s then s
      else
        (let simulatedDelta = deltaTime * speedMultiplier (simulation s);
             s1 = s\<lparr>simulation := (simulation s)\<lparr>elapsedTime :=
                                                    elapsedTime (simulation s) + simulatedDelta\<rparr>\<rparr>;
             allCompleted = (status (bus s1) = Completed);
             s2 = (if status (bus s1) \<noteq> Completed then updateBus now simulatedDelta s1 else s1);
             charging = (isCharging (bus s2) \<or> status (bus s2) = Charging);
             atSchool = (arrivedAtSchool (bus s2) \<and> progress (bus s2) < 0.55);
             isTravelingToCharger = (status (bus s2) = TravelingToCharger
                                     \<or> status (bus s2) = ReturningFromCharger);
             chargingTime = (if charging then chargingTimeHours (bus s2) else 0);
             s3 = s2\<lparr>simulation := (simulation s2)\<lparr>currentTime :=
                        calculateTimeFromProgress (progress (bus s2)) chargingTime
                          (atSchool \<or> isTravelingToCharger)\<rparr>\<rparr>
         in if allCompleted then handleDayComplete s3 else s3))"

subsection \<open>Events, invariants and example states\<close>

text \<open>
  What follows is not code of the repository: the events of a simulated day, the predicates
  that the properties below are stated with, and the concrete states that their instances
  are evaluated on.
\<close>

text \<open>Example states: a type A bus of 100 kWh on a day of extreme weather. Its route runs along
  the equator from the depot to the school, 0.29 degrees (20 miles) to the east, and back.\<close>

definition demo_config :: config where
  "demo_config = \<lparr>config_busType = TypeA, config_batteryCapacity = 100, guessDistance = 20,
                   adjustedRouteDistance = None, weatherPattern = ''fall''\<rparr>"

definition demo_route :: route where
  "demo_route =
     \<lparr>route_path = [(0, 0), (0.29, 0), (0, 0)],
      stops = [\<lparr>stop_type = Depot, coords = (0, 0), completed = True\<rparr>,
               \<lparr>stop_type = School, coords = (0.29, 0), completed = False\<rparr>,
               \<lparr>stop_type = Depot, coords = (0, 0), completed = False\<rparr>],
      distance = 40,
      route_status = RActive\<rparr>"

definition demo_state :: state where
  "demo_state =
     \<lparr>config = demo_config,
      week = \<lparr>currentDay = 1, schedule = pattern_schedule WEATHER_PATTERNS_fall, dayResults = [],
              totalMidDayCharges = 0, totalMidDayCost = 0, totalOvernightCost = 0,
              totalV2GEarnings = 0, totalV2GKwh = 0\<rparr>,
      weather = Extreme,
      nightlyCharging_decisions = [],
      route = demo_route,
      bus = initializeBuses demo_route demo_config,
      simulation = \<lparr>running = True, paused = False, elapsedTime = 0, speedMultiplier = 1,
                    currentTime = 5\<rparr>,
      stats = \<lparr>totalDistance = 0, totalEnergyConsumed = 0, electricCost = 0,
                  midDayCharges = 0, midDayChargingCost = 0, midDayChargingKwh = 0,
                  nightlyChargingKwh = 0, nightlyChargingCost = 0, completedRoutes = 0,
                  co2Avoided = 0, pickupsCompleted = 0, v2gEarnings = 0,
                  v2gKwhDischarged = 0\<rparr>,
      score = \<lparr>score_total = 0, dayScores = [], bonuses = [], penalties = []\<rparr>,
      pendingCharge = None,
      showNightlyChargingModal = False,
      gameOver = False\<rparr>"

definition night_state :: state where
  "night_state = demo_state\<lparr>bus := (bus demo_state)\<lparr>batteryKwh := 20, batteryLevel := 20\<rparr>\<rparr>"

definition surplus_state :: state where
  "surplus_state = demo_state\<lparr>bus := (bus demo_state)\<lparr>batteryKwh := 60, batteryLevel := 60\<rparr>\<rparr>"

definition school_state :: state where
  "school_state =
     demo_state\<lparr>bus := (bus demo_state)\<lparr>batteryKwh := 25, batteryLevel := 25, status := AtSchool,
                                        arrivedAtSchool := True, progress := 0.5\<rparr>\<rparr>"

definition charging_state :: state where
  "charging_state =
     demo_state\<lparr>bus := (bus demo_state)\<lparr>batteryKwh := 25, batteryLevel := 25, status := Charging,
                                        isCharging := True, arrivedAtSchool := True,
                                        midDayChargeChecked := True, progress := 0.5,
                                        chargingKwhPerHour := Some 13,
                                        chargingRate := Some 0.36,
                                        targetChargeKwh := Some 80\<rparr>\<rparr>"

text \<open>The battery invariant of a bus.\<close>

definition battery_invariant :: "bus \<Rightarrow> bool" where
  "battery_invariant b =
     (0 \<le> batteryKwh b \<and> batteryKwh b \<le> batteryCapacity b
      \<and> batteryLevel b = 100 * batteryKwh b / batteryCapacity b)"

text \<open>A bus has a positive capacity, and a charging station adds energy at a rate that is not
  negative (the stations of the provider charge at 13 or 50 kWh per hour).\<close>

definition wellformed_bus :: "bus \<Rightarrow> bool" where
  "wellformed_bus b =
     (0 < batteryCapacity b
      \<and> (case chargingKwhPerHour b of None \<Rightarrow> True | Some r \<Rightarrow> 0 \<le> r))"

text \<open>The battery fields of the bus.\<close>

definition battery_of :: "state \<Rightarrow> real \<times> real \<times> real \<times> real option" where
  "battery_of s =
     (batteryKwh (bus s), batteryLevel (bus s), batteryCapacity (bus s),
      chargingKwhPerHour (bus s))"

text \<open>An event of a simulated day: a tick of the bus (\<^verbatim>\<open>updateBus\<close>, with the wall clock and the
  simulated milliseconds) or the firing of a dwell timer.\<close>

datatype event = Tick real real | DwellTimer

fun step :: "event \<Rightarrow> state \<Rightarrow> state" where
  "step (Tick now deltaTime) s = updateBus now deltaTime s"
| "step DwellTimer s = dwellTimeout s"

definition run :: "event list \<Rightarrow> state \<Rightarrow> state" where
  "run es s = fold step es s"

text \<open>Time does not run backwards.\<close>

fun nonnegative_tick :: "event \<Rightarrow> bool" where
  "nonnegative_tick (Tick now deltaTime) = (0 \<le> deltaTime)"
| "nonnegative_tick DwellTimer = True"

text \<open>The two states in which a bus stays for the rest of the day. The engine strands or
  completes a bus only while it is not charging.\<close>

definition terminal :: "bus \<Rightarrow> bool" where
  "terminal b = ((status b = Stranded \<or> status b = Completed) \<and> \<not> isCharging b)"

text \<open>The bus is held by a dwell that has not run out: \<^verbatim>\<open>updateBus\<close> then returns at once.\<close>

definition dwell_hold :: "real \<Rightarrow> bus \<Rightarrow> bool" where
  "dwell_hold now b = (truthy (dwellUntil b) \<and> now < or_else (dwellUntil b) 0)"

definition empty_battery_state :: state where
  "empty_battery_state =
     demo_state\<lparr>bus := (bus demo_state)\<lparr>batteryKwh := 0, batteryLevel := 0, status := Moving,
                                        progress := 0.2, position := Some (0.116, 0),
                                        currentStopIndex := 1\<rparr>\<rparr>"

definition no_path_state :: state where
  "no_path_state = empty_battery_state\<lparr>route := (route empty_battery_state)\<lparr>route_path := []\<rparr>\<rparr>"

definition dwell_held_state :: state where
  "dwell_held_state =
     empty_battery_state\<lparr>bus := (bus empty_battery_state)\<lparr>dwellUntil := Some 500\<rparr>\<rparr>"

text \<open>The perfect-week bonus in the list of bonuses: how often it occurs, and its points.\<close>

definition perfect_week_reason :: string where
  "perfect_week_reason = ''Perfect week - no mid-day charges''"

definition perfect_week_count :: "state \<Rightarrow> nat" where
  "perfect_week_count s =
     length (filter (\<lambda>e. reason e = perfect_week_reason) (bonuses (score s)))"

definition perfect_week_points :: "state \<Rightarrow> real" where
  "perfect_week_points s =
     sum_list (map points (filter (\<lambda>e. reason e = perfect_week_reason) (bonuses (score s))))"

definition charged_day_state :: state where
  "charged_day_state =
     demo_state\<lparr>bus := (bus demo_state)\<lparr>status := Completed, progress := 1\<rparr>,
                stats := (stats demo_state)\<lparr>midDayCharges := 1, totalDistance := 40,
                                            totalEnergyConsumed := 76\<rparr>\<rparr>"

definition last_day_state :: state where
  "last_day_state =
     demo_state\<lparr>bus := (bus demo_state)\<lparr>status := Completed, progress := 1\<rparr>,
                week := (week demo_state)\<lparr>currentDay := 3\<rparr>,
                stats := (stats demo_state)\<lparr>totalDistance := 40, totalEnergyConsumed := 76\<rparr>,
                score := (score demo_state)\<lparr>score_total := 500\<rparr>\<rparr>"

definition last_day_charged_state :: state where
  "last_day_charged_state =
     last_day_state\<lparr>week := (week last_day_state)\<lparr>totalMidDayCharges := 2\<rparr>\<rparr>"

text \<open>How often \<^verbatim>\<open>midDayChargeChecked\<close> goes from false to true along a sequence of events.\<close>

fun flips :: "event list \<Rightarrow> state \<Rightarrow> nat" where
  "flips [] s = 0"
| "flips (e # es) s =
     (if \<not> midDayChargeChecked (bus s) \<and> midDayChargeChecked (bus (step e s)) then 1 else 0)
     + flips es (step e s)"

definition before_school_state :: state where
  "before_school_state =
     demo_state\<lparr>bus := (bus demo_state)\<lparr>status := Moving, progress := 0.47,
                                        position := Some (0.2726, 0), currentStopIndex := 1,
                                        batteryKwh := 80, batteryLevel := 80\<rparr>\<rparr>"

definition fallback_state :: state where
  "fallback_state =
     demo_state\<lparr>bus := (bus demo_state)\<lparr>status := Moving, progress := 0.49,
                                        position := Some (0.2842, 0), currentStopIndex := 1,
                                        batteryKwh := 80, batteryLevel := 80\<rparr>\<rparr>"

section \<open>Verified properties\<close>

text \<open>
  Claim C8. The progress-to-time mapper is a chain of three cases, in this order. With
  progress below 0.5 and the bus not at school, the simulated hour is the linear
  interpolation across the AM window, \<open>5 + (progress / 0.5) \<cdot> 4\<close>. Otherwise, at school or
  with charging time accumulated, it is \<open>9 + min chargingElapsedHours 3\<close>. Otherwise (progress
  at least 0.5) it is the interpolation across the PM window,
  \<open>12 + ((progress - 0.5) / 0.5) \<cdot> 4\<close>.
\<close>

theorem calculateTimeFromProgress_windows:
  "(progress' < 0.5 \<and> \<not> atSchool \<longrightarrow>
      calculateTimeFromProgress progress' c atSchool = 5 + (progress' / 0.5) * 4)
   \<and> (atSchool \<or> (progress' \<ge> 0.5 \<and> c > 0) \<longrightarrow>
      calculateTimeFromProgress progress' c atSchool = 9 + min c 3)
   \<and> (progress' \<ge> 0.5 \<and> \<not> atSchool \<and> c \<le> 0 \<longrightarrow>
      calculateTimeFromProgress progress' c atSchool = 12 + ((progress' - 0.5) / 0.5) * 4)"
  by (simp add: calculateTimeFromProgress_def Let_def TIME_WINDOWS_amTripStart_def
      TIME_WINDOWS_amTripEnd_def TIME_WINDOWS_midDayStart_def TIME_WINDOWS_midDayEnd_def
      TIME_WINDOWS_pmTripStart_def TIME_WINDOWS_pmTripEnd_def)

theorem calculateTimeFromProgress_windows_witness:
  "calculateTimeFromProgress 0.25 0 False = 7
   \<and> calculateTimeFromProgress 0.5 1 True = 10
   \<and> calculateTimeFromProgress 0.5 5 False = 12
   \<and> calculateTimeFromProgress 0.75 0 False = 14"
  using calculateTimeFromProgress_windows [of "0.25" False 0]
    calculateTimeFromProgress_windows [of "0.5" True 1]
    calculateTimeFromProgress_windows [of "0.5" False 5]
    calculateTimeFromProgress_windows [of "0.75" False 0]
  by simp

text \<open>
  Claim C6. Resetting the bus for a new day with the overnight target \<open>T\<close> leaves
  \<open>batteryLevel = T\<close> and \<open>batteryKwh = T / 100 \<cdot> capacity\<close>; the overnight energy recorded
  as added is \<open>max 0 (T / 100 \<cdot> capacity - previous batteryKwh)\<close> and its cost is that energy
  times the overnight rate. The instance: target 40, battery at 20 kWh of 100, gives 20 kWh
  at 20 times the overnight rate.
\<close>

theorem resetBusForNewDay_target:
  "batteryLevel (bus (resetBusForNewDay T s)) = T
   \<and> batteryKwh (bus (resetBusForNewDay T s)) = T / 100 * batteryCapacity (bus s)
   \<and> batteryCapacity (bus (resetBusForNewDay T s)) = batteryCapacity (bus s)
   \<and> nightlyChargingKwh (stats (resetBusForNewDay T s))
       = nightlyChargingKwh (stats s)
         + max 0 (T / 100 * batteryCapacity (bus s) - batteryKwh (bus s))
   \<and> nightlyChargingCost (stats (resetBusForNewDay T s))
       = nightlyChargingCost (stats s)
         + max 0 (T / 100 * batteryCapacity (bus s) - batteryKwh (bus s))
           * FUEL_COSTS_electric_overnight
   \<and> totalOvernightCost (week (resetBusForNewDay T s))
       = totalOvernightCost (week s)
         + max 0 (T / 100 * batteryCapacity (bus s) - batteryKwh (bus s))
           * FUEL_COSTS_electric_overnight"
  by (simp add: resetBusForNewDay_def Let_def max_def)

theorem resetBusForNewDay_target_witness:
  "batteryLevel (bus (resetBusForNewDay 40 night_state)) = 40
   \<and> batteryKwh (bus (resetBusForNewDay 40 night_state)) = 40
   \<and> nightlyChargingKwh (stats (resetBusForNewDay 40 night_state)) = 20
   \<and> nightlyChargingCost (stats (resetBusForNewDay 40 night_state))
       = 20 * FUEL_COSTS_electric_overnight"
  using resetBusForNewDay_target [of 40 night_state]
  by (simp add: night_state_def demo_state_def initializeBuses_def demo_config_def)

text \<open>
  Claim C10. When the battery holds more than the overnight target, the reset still sets
  \<open>batteryKwh\<close> to \<open>target / 100 \<cdot> capacity\<close>: the surplus is dropped, no energy and no cost
  are recorded (statistics, week totals and score are unchanged), and confirming the night
  without a discharge records a decision of zero energy and zero cost and credits no
  vehicle-to-grid earnings.
\<close>

theorem resetBusForNewDay_discards_surplus:
  assumes "batteryKwh (bus s) > T / 100 * batteryCapacity (bus s)"
  shows "batteryKwh (bus (resetBusForNewDay T s)) = T / 100 * batteryCapacity (bus s)
         \<and> stats (resetBusForNewDay T s) = stats s
         \<and> week (resetBusForNewDay T s) = week s
         \<and> score (resetBusForNewDay T s) = score s
         \<and> (let s' = confirmNightlyCharging T None 0 0 None s in
              batteryKwh (bus s') = T / 100 * batteryCapacity (bus s)
              \<and> energyCharged (last (nightlyCharging_decisions s')) = 0
              \<and> decision_cost (last (nightlyCharging_decisions s')) = 0
              \<and> totalOvernightCost (week s') = totalOvernightCost (week s)
              \<and> totalV2GEarnings (week s') = totalV2GEarnings (week s)
              \<and> totalV2GKwh (week s') = totalV2GKwh (week s)
              \<and> nightlyChargingKwh (stats s') = 0
              \<and> v2gEarnings (stats s') = 0)"
  using assms
  by (simp add: resetBusForNewDay_def confirmNightlyCharging_def continueToNextDay_def
      recordNightlyCharging_def resetStats_def resetSimulation_def truthy_def Let_def max_def)

theorem resetBusForNewDay_discards_surplus_witness:
  "batteryKwh (bus surplus_state) = 60
   \<and> batteryKwh (bus (resetBusForNewDay 40 surplus_state)) = 40
   \<and> stats (resetBusForNewDay 40 surplus_state) = stats surplus_state
   \<and> week (resetBusForNewDay 40 surplus_state) = week surplus_state"
proof -
  have h: "batteryKwh (bus surplus_state) > 40 / 100 * batteryCapacity (bus surplus_state)"
    by (simp add: surplus_state_def demo_state_def initializeBuses_def demo_config_def)
  have k: "batteryKwh (bus surplus_state) = 60" "batteryCapacity (bus surplus_state) = 100"
    by (simp_all add: surplus_state_def demo_state_def initializeBuses_def demo_config_def)
  show ?thesis
    using resetBusForNewDay_discards_surplus [OF h] k by simp
qed

text \<open>
  Claim C3. The mid-day check at school arrival (the bus is not charging, has not been
  checked, is not travelling to a charger, and the route has a school stop) takes the
  remaining distance \<open>route.distance / 2\<close>, the energy needed, that distance times the
  efficiency, and the predicted depot percentage
  \<open>(batteryKwh - energyNeeded) / capacity \<cdot> 100\<close>. Charging is required exactly when that
  percentage is below 15, and then the energy to add is
  \<open>max 0 (0.15 \<cdot> capacity + energyNeeded - batteryKwh)\<close>. The instance: 20 miles at 1.9
  kWh per mile with 25 kWh of 100 needs 38 kWh, predicts -13 kWh, requires charging and adds
  28 kWh.
\<close>

theorem checkChargingNeeds_decision:
  assumes "\<not> isCharging (bus s)" and "\<not> midDayChargeChecked (bus s)"
    and "status (bus s) \<noteq> TravelingToCharger"
    and "find (\<lambda>st. stop_type st = School) (stops (route s)) \<noteq> None"
  shows "(let energyNeeded = (distance (route s) / 2) * getEfficiency (busType (bus s)) (weather s);
              percent = (batteryKwh (bus s) - energyNeeded) / batteryCapacity (bus s) * 100;
              required = fst (checkChargingNeeds s);
              s' = snd (checkChargingNeeds s)
          in required = (percent < 15)
             \<and> needsMidDayCharge (bus s') = (needsMidDayCharge (bus s) \<or> percent < 15)
             \<and> midDayChargeChecked (bus s')
             \<and> (required \<longrightarrow>
                  map_option pending_energyNeeded (pendingCharge s')
                    = Some (max 0 (0.15 * batteryCapacity (bus s) + energyNeeded
                                     - batteryKwh (bus s)))))"
  using assms
  by (simp add: checkChargingNeeds_def Let_def BATTERY_CONFIG_minReturnCharge_def
      stopSimulation_def algebra_simps)

theorem checkChargingNeeds_decision_witness:
  "distance (route school_state) / 2 = 20
   \<and> getEfficiency (busType (bus school_state)) (weather school_state) = 1.9
   \<and> batteryKwh (bus school_state) = 25
   \<and> batteryCapacity (bus school_state) = 100
   \<and> (distance (route school_state) / 2)
       * getEfficiency (busType (bus school_state)) (weather school_state) = 38
   \<and> fst (checkChargingNeeds school_state)
   \<and> map_option pending_energyNeeded (pendingCharge (snd (checkChargingNeeds school_state)))
       = Some 28"
proof -
  have vals: "distance (route school_state) = 40" "busType (bus school_state) = TypeA"
    "weather school_state = Extreme" "batteryKwh (bus school_state) = 25"
    "batteryCapacity (bus school_state) = 100"
    by (simp_all add: school_state_def demo_state_def demo_route_def initializeBuses_def
        demo_config_def)
  have h1: "\<not> isCharging (bus school_state)" and h2: "\<not> midDayChargeChecked (bus school_state)"
    and h3: "status (bus school_state) \<noteq> TravelingToCharger"
    and h4: "find (\<lambda>st. stop_type st = School) (stops (route school_state)) \<noteq> None"
    by (simp_all add: school_state_def demo_state_def demo_route_def initializeBuses_def)
  show ?thesis
    using checkChargingNeeds_decision [OF h1 h2 h3 h4] vals
    by (simp add: Let_def getEfficiency_def)
qed



lemma battery_of_cong:
  "battery_of s' = battery_of s \<Longrightarrow> battery_invariant (bus s') = battery_invariant (bus s)"
  "battery_of s' = battery_of s \<Longrightarrow> wellformed_bus (bus s') = wellformed_bus (bus s)"
  by (simp_all add: battery_of_def battery_invariant_def wellformed_bus_def)

lemma getEfficiency_pos: "0 < getEfficiency bt w"
  by (cases bt; cases w) (simp_all add: getEfficiency_def)

lemma checkChargingNeeds_battery: "battery_of (snd (checkChargingNeeds s)) = battery_of s"
  by (simp add: checkChargingNeeds_def Let_def battery_of_def stopSimulation_def)

lemma processStopArrival_battery: "battery_of (processStopArrival now st s) = battery_of s"
proof -
  have "\<And>t. battery_of (snd (checkChargingNeeds t)) = battery_of t"
    by (rule checkChargingNeeds_battery)
  then show ?thesis
    by (simp add: processStopArrival_def Let_def battery_of_def)
qed

lemma checkStopArrivalsLoop_battery:
  "battery_of (checkStopArrivalsLoop now n s) = battery_of s"
proof (induction now n s rule: checkStopArrivalsLoop.induct)
  case (1 now n s)
  show ?case
    apply (subst checkStopArrivalsLoop.simps)
    using 1 processStopArrival_battery
    apply (simp add: currentStopIndex_bump_def battery_of_def del: checkStopArrivalsLoop.simps)
    done
qed

declare checkStopArrivalsLoop.simps [simp del]

lemma checkStopArrivals_battery: "battery_of (checkStopArrivals now s) = battery_of s"
  by (simp add: checkStopArrivals_def checkStopArrivalsLoop_battery)

lemma moveBus_finish_battery: "battery_of (moveBus_finish now s) = battery_of s"
proof -
  have "\<And>t. battery_of (snd (checkChargingNeeds t)) = battery_of t"
    by (rule checkChargingNeeds_battery)
  then show ?thesis
    by (simp add: moveBus_finish_def completeRoute_def Let_def battery_of_def)
qed

lemma strand_battery:
  assumes "wellformed_bus (bus s)"
  shows "battery_invariant (bus (strand s))" and "wellformed_bus (bus (strand s))"
  using assms
  by (simp_all add: strand_def triggerGameOver_def stopSimulation_def battery_invariant_def
      wellformed_bus_def)

lemma clamp_battery:
  fixes cap kwh used :: real
  assumes "0 < cap" and "0 \<le> kwh" and "kwh \<le> cap" and "0 \<le> used"
  shows "0 \<le> max 0 (kwh - used)" and "max 0 (kwh - used) \<le> cap"
    and "max 0 (kwh - used) / cap * 100 = 100 * max 0 (kwh - used) / cap"
  using assms by (simp_all add: max_def)

lemma moveBus_advance_battery:
  assumes "wellformed_bus (bus s)" and "battery_invariant (bus s)" and "0 \<le> d"
  shows "battery_invariant (bus (moveBus_advance d L s))"
    and "wellformed_bus (bus (moveBus_advance d L s))"
proof -
  have e: "0 \<le> d * getEfficiency (busType (bus s)) (weather s)"
    using assms(3) getEfficiency_pos [of "busType (bus s)" "weather s"] by simp
  from assms(1,2) have c: "0 < batteryCapacity (bus s)" "0 \<le> batteryKwh (bus s)"
    "batteryKwh (bus s) \<le> batteryCapacity (bus s)"
    by (simp_all add: wellformed_bus_def battery_invariant_def)
  show "battery_invariant (bus (moveBus_advance d L s))"
    using clamp_battery [OF c e]
    by (simp add: moveBus_advance_def Let_def battery_invariant_def)
  show "wellformed_bus (bus (moveBus_advance d L s))"
    using assms(1) by (simp add: moveBus_advance_def Let_def wellformed_bus_def)
qed

lemma moveBus_battery:
  assumes "wellformed_bus (bus s)" and "battery_invariant (bus s)" and "0 \<le> deltaTime"
  shows "battery_invariant (bus (moveBus now deltaTime s))"
    and "wellformed_bus (bus (moveBus now deltaTime s))"
proof -
  let ?d = "SIMULATION_CONFIG_baseSpeedMph * (deltaTime / (3600 * 1000))"
  let ?L = "calculatePathLength (route_path (route s))"
  let ?s1 = "moveBus_advance ?d ?L s"
  have d: "0 \<le> ?d" using assms(3) by (simp add: SIMULATION_CONFIG_baseSpeedMph_def)
  note adv = moveBus_advance_battery [OF assms(1,2) d, of ?L]
  have "battery_of (moveBus_finish now (checkStopArrivals now ?s1)) = battery_of ?s1"
    by (simp add: moveBus_finish_battery checkStopArrivals_battery)
  note same = battery_of_cong [OF this]
  have fin: "battery_invariant (bus (moveBus_finish now (checkStopArrivals now ?s1)))"
    "wellformed_bus (bus (moveBus_finish now (checkStopArrivals now ?s1)))"
    using adv same by blast+
  have eq: "moveBus now deltaTime s =
      (if length (route_path (route s)) < 2 then s
       else if batteryKwh (bus s) \<le> 0 \<and> \<not> isCharging (bus s) then strand s
       else if ?L = 0 then s
       else if batteryKwh (bus ?s1) \<le> 0 \<and> \<not> isCharging (bus ?s1) then strand ?s1
       else moveBus_finish now (checkStopArrivals now ?s1))"
    unfolding moveBus_def Let_def by (rule refl)
  show "battery_invariant (bus (moveBus now deltaTime s))"
    unfolding eq
    using assms(2) fin(1) strand_battery(1) [OF assms(1)] strand_battery(1) [OF adv(2)]
    by (simp split: if_splits)
  show "wellformed_bus (bus (moveBus now deltaTime s))"
    unfolding eq
    using assms(1) fin(2) strand_battery(2) [OF assms(1)] strand_battery(2) [OF adv(2)]
    by (simp split: if_splits)
qed

lemma strand_deadhead_battery: "battery_of (strand_deadhead s) = battery_of s"
  by (simp add: strand_deadhead_def triggerGameOver_def stopSimulation_def battery_of_def)

lemma deadhead_energy_nonneg:
  assumes "0 \<le> deltaTime"
  shows "0 \<le> SIMULATION_CONFIG_baseSpeedMph * (deltaTime / (3600 * 1000))
              * getEfficiency bt w * MIDDAY_CHARGING_energyCostDeadhead"
  using assms getEfficiency_pos [of bt w]
  by (simp add: SIMULATION_CONFIG_baseSpeedMph_def MIDDAY_CHARGING_energyCostDeadhead_def)

lemma handleDeadheadTravel_battery:
  assumes "wellformed_bus (bus s)" and "battery_invariant (bus s)" and "0 \<le> deltaTime"
  shows "battery_invariant (bus (handleDeadheadTravel deltaTime s))
         \<and> wellformed_bus (bus (handleDeadheadTravel deltaTime s))"
proof -
  from assms(1,2) have c: "0 < batteryCapacity (bus s)" "0 \<le> batteryKwh (bus s)"
    "batteryKwh (bus s) \<le> batteryCapacity (bus s)"
    by (simp_all add: wellformed_bus_def battery_invariant_def)
  note k = clamp_battery [OF c deadhead_energy_nonneg [OF assms(3)],
      of "busType (bus s)" "weather s"]
  show ?thesis
    using assms(1,2) k
    by (simp add: handleDeadheadTravel_def Let_def battery_invariant_def wellformed_bus_def
        strand_deadhead_def triggerGameOver_def stopSimulation_def
        split: option.splits prod.splits)
qed

lemma handleReturnFromCharger_battery:
  assumes "wellformed_bus (bus s)" and "battery_invariant (bus s)" and "0 \<le> deltaTime"
  shows "battery_invariant (bus (handleReturnFromCharger deltaTime s))
         \<and> wellformed_bus (bus (handleReturnFromCharger deltaTime s))"
proof -
  from assms(1,2) have c: "0 < batteryCapacity (bus s)" "0 \<le> batteryKwh (bus s)"
    "batteryKwh (bus s) \<le> batteryCapacity (bus s)"
    by (simp_all add: wellformed_bus_def battery_invariant_def)
  note k = clamp_battery [OF c deadhead_energy_nonneg [OF assms(3)],
      of "busType (bus s)" "weather s"]
  show ?thesis
    using assms(1,2) k
    by (simp add: handleReturnFromCharger_def Let_def battery_invariant_def wellformed_bus_def
        strand_deadhead_def triggerGameOver_def stopSimulation_def
        split: option.splits prod.splits)
qed

lemma or_else_nonneg:
  assumes "case x of None \<Rightarrow> True | Some r \<Rightarrow> 0 \<le> r" and "0 \<le> d"
  shows "0 \<le> or_else x d"
  using assms by (simp add: or_else_def split: option.splits)

lemma handleCharging_battery:
  assumes "wellformed_bus (bus s)" and "battery_invariant (bus s)" and "0 \<le> deltaTime"
  shows "battery_invariant (bus (handleCharging deltaTime s))
         \<and> wellformed_bus (bus (handleCharging deltaTime s))"
proof -
  let ?b = "bus s"
  let ?add = "or_else (chargingKwhPerHour ?b) BATTERY_CONFIG_chargingRateKwhPerHour
              * (deltaTime / (3600 * 1000))"
  let ?K = "min (batteryCapacity ?b) (batteryKwh ?b + ?add)"
  from assms(1,2) have c: "0 < batteryCapacity ?b" "0 \<le> batteryKwh ?b"
    "batteryKwh ?b \<le> batteryCapacity ?b"
    by (simp_all add: wellformed_bus_def battery_invariant_def)
  have "0 \<le> or_else (chargingKwhPerHour ?b) BATTERY_CONFIG_chargingRateKwhPerHour"
    using assms(1)
    by (intro or_else_nonneg) (simp_all add: wellformed_bus_def
        BATTERY_CONFIG_chargingRateKwhPerHour_def)
  then have add: "0 \<le> ?add" using assms(3) by simp
  have K: "0 \<le> ?K" "?K \<le> batteryCapacity ?b" using c add by simp_all
  have kwh: "batteryKwh (bus (handleCharging deltaTime s)) = ?K"
    and lvl: "batteryLevel (bus (handleCharging deltaTime s)) = (?K / batteryCapacity ?b) * 100"
    and cap: "batteryCapacity (bus (handleCharging deltaTime s)) = batteryCapacity ?b"
    by (simp_all add: handleCharging_def Let_def)
  have rate: "chargingKwhPerHour (bus (handleCharging deltaTime s)) = None
              \<or> chargingKwhPerHour (bus (handleCharging deltaTime s)) = chargingKwhPerHour ?b"
    by (simp add: handleCharging_def Let_def)
  have "battery_invariant (bus (handleCharging deltaTime s))"
    unfolding battery_invariant_def kwh lvl cap using K by simp
  moreover have "wellformed_bus (bus (handleCharging deltaTime s))"
    using assms(1) rate c(1) unfolding wellformed_bus_def cap by auto
  ultimately show ?thesis by simp
qed

lemma updateBus_battery:
  assumes "wellformed_bus (bus s)" and "battery_invariant (bus s)" and "0 \<le> deltaTime"
  shows "battery_invariant (bus (updateBus now deltaTime s))
         \<and> wellformed_bus (bus (updateBus now deltaTime s))"
proof -
  let ?s0 = "if truthy (dwellUntil (bus s)) then s\<lparr>bus := (bus s)\<lparr>dwellUntil := None\<rparr>\<rparr> else s"
  let ?s1 = "if status (bus ?s0) = Waiting then
               ?s0\<lparr>bus := (bus ?s0)\<lparr>status := Moving\<rparr>,
                   route := (route ?s0)\<lparr>route_status := RActive\<rparr>\<rparr>
             else ?s0"
  have s0: "wellformed_bus (bus ?s0)" "battery_invariant (bus ?s0)"
    using assms(1,2) by (simp_all add: wellformed_bus_def battery_invariant_def)
  have s1: "wellformed_bus (bus ?s1)" "battery_invariant (bus ?s1)"
    using s0 by (simp_all add: wellformed_bus_def battery_invariant_def)
  have eq: "updateBus now deltaTime s =
      (if truthy (dwellUntil (bus s)) \<and> now < or_else (dwellUntil (bus s)) 0 then s
       else if status (bus ?s0) = TravelingToCharger then handleDeadheadTravel deltaTime ?s0
       else if status (bus ?s0) = ReturningFromCharger then
         handleReturnFromCharger deltaTime ?s0
       else if isCharging (bus ?s0) then handleCharging deltaTime ?s0
       else if status (bus ?s1) = Moving then moveBus now deltaTime ?s1 else ?s1)"
    unfolding updateBus_def Let_def by (rule refl)
  show ?thesis
    unfolding eq
    using assms(1,2) s1
      handleDeadheadTravel_battery [OF s0 assms(3)]
      handleReturnFromCharger_battery [OF s0 assms(3)]
      handleCharging_battery [OF s0 assms(3)]
      moveBus_battery [OF s1 assms(3), of now]
    by (simp split: if_splits)
qed

lemma resetBusForNewDay_battery:
  assumes "0 < batteryCapacity (bus s)" and "0 \<le> T" and "T \<le> 100"
  shows "battery_invariant (bus (resetBusForNewDay T s))
         \<and> wellformed_bus (bus (resetBusForNewDay T s))"
proof -
  have "T / 100 * batteryCapacity (bus s) \<le> 1 * batteryCapacity (bus s)"
    using assms by (intro mult_right_mono) simp_all
  then show ?thesis
    using assms
    by (simp add: resetBusForNewDay_def Let_def battery_invariant_def wellformed_bus_def)
qed

lemma score_functions_bus:
  "bus (addDayScore d s) = bus s" "bus (addBonus e s) = bus s" "bus (addPenalty e s) = bus s"
  "bus (stopSimulation s) = bus s" "bus (resetStats s) = bus s" "bus (resetSimulation s) = bus s"
  by (simp_all add: addDayScore_def addBonus_def addPenalty_def stopSimulation_def
      resetStats_def resetSimulation_def)

lemma calculateDayScore_bus: "bus (calculateDayScore s) = bus s"
  by (simp add: calculateDayScore_def Let_def score_functions_bus)

lemma advanceDay_bus: "bus (snd (advanceDay s)) = bus s"
  by (simp add: advanceDay_def Let_def split: option.splits)

lemma calculateFinalScore_bus: "bus (calculateFinalScore s) = bus s"
  by (simp add: calculateFinalScore_def Let_def score_functions_bus)

lemma continueToNextDay_battery:
  assumes "0 < batteryCapacity (bus s)" and "0 \<le> T" and "T \<le> 100"
  shows "battery_invariant (bus (continueToNextDay T d r s))
         \<and> wellformed_bus (bus (continueToNextDay T d r s))"
proof -
  let ?s1 = "resetSimulation (resetStats s)"
  let ?s2 = "if truthy d then (case r of Some newRoute \<Rightarrow> ?s1\<lparr>route := newRoute\<rparr> | None \<Rightarrow> ?s1)
             else ?s1"
  have "bus ?s2 = bus s" by (simp add: score_functions_bus split: option.splits)
  then have "0 < batteryCapacity (bus ?s2)" using assms(1) by simp
  from resetBusForNewDay_battery [OF this assms(2,3)] show ?thesis
    by (simp add: continueToNextDay_def Let_def)
qed

lemma handleDayComplete_battery:
  assumes "wellformed_bus (bus s)" and "battery_invariant (bus s)"
  shows "battery_invariant (bus (handleDayComplete s))
         \<and> wellformed_bus (bus (handleDayComplete s))"
proof -
  let ?s2 = "(stopSimulation s)\<lparr>stats := (stats (stopSimulation s))\<lparr>electricCost :=
      (totalEnergyConsumed (stats (stopSimulation s)) - midDayChargingKwh (stats (stopSimulation s)))
        * FUEL_COSTS_electric_overnight + midDayChargingCost (stats (stopSimulation s))\<rparr>\<rparr>"
  let ?s4 = "snd (advanceDay (calculateDayScore ?s2))"
  have b4: "bus ?s4 = bus s"
    by (simp add: advanceDay_bus calculateDayScore_bus score_functions_bus)
  have eq: "handleDayComplete s =
      (if fst (advanceDay (calculateDayScore ?s2)) then showNightlyChargingDecision ?s4
       else calculateFinalScore ?s4)"
    unfolding handleDayComplete_def Let_def by (rule refl)
  have cap: "0 < batteryCapacity (bus ?s4)" using assms(1) b4 by (simp add: wellformed_bus_def)
  have night: "battery_invariant (bus (showNightlyChargingDecision ?s4))
               \<and> wellformed_bus (bus (showNightlyChargingDecision ?s4))"
    using continueToNextDay_battery [OF cap, of 100 None None] assms b4
    by (simp add: showNightlyChargingDecision_def Let_def split: option.splits)
  show ?thesis
    unfolding eq using night assms b4 by (simp add: calculateFinalScore_bus)
qed

lemma simulationLoop_battery:
  assumes "wellformed_bus (bus s)" and "battery_invariant (bus s)" and "0 \<le> deltaTime"
    and "0 \<le> speedMultiplier (simulation s)"
  shows "battery_invariant (bus (simulationLoop now deltaTime s))
         \<and> wellformed_bus (bus (simulationLoop now deltaTime s))"
proof -
  let ?d = "deltaTime * speedMultiplier (simulation s)"
  let ?s1 = "s\<lparr>simulation := (simulation s)\<lparr>elapsedTime := elapsedTime (simulation s) + ?d\<rparr>\<rparr>"
  let ?s2 = "if status (bus ?s1) \<noteq> Completed then updateBus now ?d ?s1 else ?s1"
  let ?s3 = "?s2\<lparr>simulation := (simulation ?s2)\<lparr>currentTime :=
      calculateTimeFromProgress (progress (bus ?s2))
        (if isCharging (bus ?s2) \<or> status (bus ?s2) = Charging
         then chargingTimeHours (bus ?s2) else 0)
        (arrivedAtSchool (bus ?s2) \<and> progress (bus ?s2) < 0.55
         \<or> (status (bus ?s2) = TravelingToCharger
             \<or> status (bus ?s2) = ReturningFromCharger))\<rparr>\<rparr>"
  have d: "0 \<le> ?d" using assms(3,4) by simp
  have s1: "wellformed_bus (bus ?s1)" "battery_invariant (bus ?s1)" using assms(1,2) by simp_all
  have s2: "wellformed_bus (bus ?s2)" "battery_invariant (bus ?s2)"
    using updateBus_battery [OF s1 d, of now] s1 by (simp_all split: if_splits)
  have s3: "wellformed_bus (bus ?s3)" "battery_invariant (bus ?s3)" using s2 by simp_all
  have eq: "simulationLoop now deltaTime s =
      (if \<not> running (simulation s) \<or> paused (simulation s) then s
       else if pendingCharge s \<noteq> None then s
       else if showNightlyChargingModal s then s
       else if status (bus ?s1) = Completed then handleDayComplete ?s3 else ?s3)"
    unfolding simulationLoop_def Let_def by (rule refl)
  show ?thesis
    unfolding eq using assms(1,2) s3 handleDayComplete_battery [OF s3]
    by (simp split: if_splits)
qed

lemma step_battery:
  assumes "wellformed_bus (bus s)" and "battery_invariant (bus s)" and "nonnegative_tick e"
  shows "battery_invariant (bus (step e s)) \<and> wellformed_bus (bus (step e s))"
proof (cases e)
  case (Tick now deltaTime)
  with assms updateBus_battery [of s deltaTime now] show ?thesis by simp
next
  case DwellTimer
  with assms show ?thesis
    by (simp add: dwellTimeout_def battery_invariant_def wellformed_bus_def)
qed

lemma run_battery:
  assumes "wellformed_bus (bus s)" and "battery_invariant (bus s)"
    and "list_all nonnegative_tick es"
  shows "battery_invariant (bus (run es s)) \<and> wellformed_bus (bus (run es s))"
  using assms
proof (induction es arbitrary: s)
  case Nil
  then show ?case by (simp add: run_def)
next
  case (Cons e es)
  from Cons.prems step_battery [of s e]
  have "wellformed_bus (bus (step e s))" "battery_invariant (bus (step e s))" by simp_all
  from Cons.IH [OF this] Cons.prems(3) show ?case by (simp add: run_def)
qed

lemma initializeBuses_battery:
  assumes "0 < config_batteryCapacity cfg"
  shows "battery_invariant (initializeBuses r cfg) \<and> wellformed_bus (initializeBuses r cfg)"
  using assms by (simp add: initializeBuses_def battery_invariant_def wellformed_bus_def)

text \<open>
  Claim C1. Every operation that changes the battery of a bus keeps
  \<open>0 \<le> batteryKwh \<le> batteryCapacity\<close> and \<open>batteryLevel = 100 \<cdot> batteryKwh / batteryCapacity\<close>:
  moving, deadhead travel, return travel, charging, a tick of the bus, a tick of the
  simulation loop, any sequence of events of a day, and the overnight reset to a target
  between 0 and 100. Time does not run backwards (\<open>0 \<le> deltaTime\<close>). A bus that
  \<^verbatim>\<open>initializeBuses\<close> creates satisfies the invariant.
\<close>

theorem battery_invariant_preserved:
  assumes "wellformed_bus (bus s)" and "battery_invariant (bus s)" and "0 \<le> deltaTime"
  shows "battery_invariant (bus (moveBus now deltaTime s))
         \<and> battery_invariant (bus (handleDeadheadTravel deltaTime s))
         \<and> battery_invariant (bus (handleReturnFromCharger deltaTime s))
         \<and> battery_invariant (bus (handleCharging deltaTime s))
         \<and> battery_invariant (bus (updateBus now deltaTime s))
         \<and> (0 \<le> speedMultiplier (simulation s) \<longrightarrow>
               battery_invariant (bus (simulationLoop now deltaTime s)))
         \<and> (0 \<le> T \<and> T \<le> 100 \<longrightarrow> battery_invariant (bus (resetBusForNewDay T s)))
         \<and> (list_all nonnegative_tick es \<longrightarrow> battery_invariant (bus (run es s)))
         \<and> (0 < config_batteryCapacity cfg \<longrightarrow>
               battery_invariant (initializeBuses r cfg)
               \<and> wellformed_bus (initializeBuses r cfg))"
proof -
  have cap: "0 < batteryCapacity (bus s)" using assms(1) by (simp add: wellformed_bus_def)
  show ?thesis
    using moveBus_battery(1) [OF assms, of now] handleDeadheadTravel_battery [OF assms]
      handleReturnFromCharger_battery [OF assms] handleCharging_battery [OF assms]
      updateBus_battery [OF assms, of now] simulationLoop_battery [OF assms, of now]
      resetBusForNewDay_battery [OF cap, of T] run_battery [OF assms(1,2), of es]
      initializeBuses_battery [of cfg r]
    by blast
qed

theorem battery_invariant_preserved_witness:
  "wellformed_bus (bus charging_state) \<and> battery_invariant (bus charging_state)
   \<and> battery_invariant (bus (updateBus 0 3600000 charging_state))
   \<and> batteryKwh (bus (updateBus 0 3600000 charging_state)) = 38
   \<and> battery_invariant (bus (resetBusForNewDay 40 charging_state))
   \<and> battery_invariant
        (bus (run [Tick 0 3600000, DwellTimer, Tick 50 3600000] charging_state))"
proof -
  have h: "wellformed_bus (bus charging_state)" "battery_invariant (bus charging_state)"
    by (simp_all add: charging_state_def demo_state_def initializeBuses_def demo_config_def
        wellformed_bus_def battery_invariant_def)
  have k: "batteryKwh (bus (updateBus 0 3600000 charging_state)) = 38"
    by (simp add: charging_state_def demo_state_def initializeBuses_def demo_config_def
        updateBus_def handleCharging_def Let_def truthy_def or_else_def)
  show ?thesis
    using h k battery_invariant_preserved [OF h, of 3600000 0 40
        "[Tick 0 3600000, DwellTimer, Tick 50 3600000]"]
    by simp
qed

lemma updateBus_terminal:
  assumes "terminal (bus s)"
  shows "updateBus now deltaTime s = s
         \<or> updateBus now deltaTime s = s\<lparr>bus := (bus s)\<lparr>dwellUntil := None\<rparr>\<rparr>"
  using assms by (auto simp: updateBus_def terminal_def Let_def)

lemma step_terminal:
  assumes "terminal (bus s)"
  shows "terminal (bus (step e s)) \<and> position (bus (step e s)) = position (bus s)
         \<and> progress (bus (step e s)) = progress (bus s)
         \<and> status (bus (step e s)) = status (bus s)"
proof (cases e)
  case (Tick now deltaTime)
  with assms updateBus_terminal [OF assms, of now deltaTime] show ?thesis
    by (auto simp: terminal_def)
next
  case DwellTimer
  with assms show ?thesis by (auto simp: dwellTimeout_def terminal_def)
qed

lemma run_terminal:
  assumes "terminal (bus s)"
  shows "terminal (bus (run es s)) \<and> position (bus (run es s)) = position (bus s)
         \<and> progress (bus (run es s)) = progress (bus s)
         \<and> status (bus (run es s)) = status (bus s)"
  using assms
proof (induction es arbitrary: s)
  case Nil
  then show ?case by (simp add: run_def)
next
  case (Cons e es)
  from step_terminal [OF Cons.prems, of e] Cons.IH [of "step e s"] show ?case
    by (simp add: run_def)
qed

lemma updateBus_strands:
  assumes "status (bus s) = Moving" and "batteryKwh (bus s) \<le> 0" and "\<not> isCharging (bus s)"
    and "2 \<le> length (route_path (route s))" and "\<not> dwell_hold now (bus s)"
  shows "updateBus now deltaTime s
         = strand (if truthy (dwellUntil (bus s)) then s\<lparr>bus := (bus s)\<lparr>dwellUntil := None\<rparr>\<rparr>
                   else s)"
  using assms by (simp add: updateBus_def moveBus_def dwell_hold_def Let_def)

text \<open>
  Claim C2, as amended. A bus that is moving with an empty battery and is not charging is
  stranded by the next tick, with its position and progress unchanged, provided the route
  path has at least two points and the bus is not held by a dwell that has not run out.
  Once a bus is stranded or completed (and so not charging), no later tick and no dwell
  timer changes its position, progress or status.
\<close>

theorem empty_battery_strands:
  "(status (bus s) = Moving \<and> batteryKwh (bus s) \<le> 0 \<and> \<not> isCharging (bus s)
      \<and> 2 \<le> length (route_path (route s)) \<and> \<not> dwell_hold now (bus s) \<longrightarrow>
      status (bus (updateBus now deltaTime s)) = Stranded
      \<and> position (bus (updateBus now deltaTime s)) = position (bus s)
      \<and> progress (bus (updateBus now deltaTime s)) = progress (bus s)
      \<and> terminal (bus (updateBus now deltaTime s)))
   \<and> (terminal (bus s) \<longrightarrow>
      position (bus (run es s)) = position (bus s)
      \<and> progress (bus (run es s)) = progress (bus s)
      \<and> status (bus (run es s)) = status (bus s))"
proof (intro conjI impI)
  assume t: "terminal (bus s)"
  from run_terminal [OF t, of es]
  show "position (bus (run es s)) = position (bus s)"
    and "progress (bus (run es s)) = progress (bus s)"
    and "status (bus (run es s)) = status (bus s)" by simp_all
next
  assume a: "status (bus s) = Moving \<and> batteryKwh (bus s) \<le> 0 \<and> \<not> isCharging (bus s)
      \<and> 2 \<le> length (route_path (route s)) \<and> \<not> dwell_hold now (bus s)"
  then have eq: "updateBus now deltaTime s
      = strand (if truthy (dwellUntil (bus s)) then s\<lparr>bus := (bus s)\<lparr>dwellUntil := None\<rparr>\<rparr>
                else s)"
    by (intro updateBus_strands) simp_all
  show "status (bus (updateBus now deltaTime s)) = Stranded"
    and "position (bus (updateBus now deltaTime s)) = position (bus s)"
    and "progress (bus (updateBus now deltaTime s)) = progress (bus s)"
    and "terminal (bus (updateBus now deltaTime s))"
    using a unfolding eq
    by (simp_all add: strand_def triggerGameOver_def stopSimulation_def terminal_def)
qed

theorem empty_battery_strands_witness:
  "status (bus empty_battery_state) = Moving \<and> batteryKwh (bus empty_battery_state) = 0
   \<and> status (bus (updateBus 0 1000 empty_battery_state)) = Stranded
   \<and> position (bus (updateBus 0 1000 empty_battery_state)) = Some (0.116, 0)
   \<and> progress (bus (updateBus 0 1000 empty_battery_state)) = 0.2
   \<and> position (bus (run [Tick 50 1000, DwellTimer, Tick 100 1000]
                        (updateBus 0 1000 empty_battery_state))) = Some (0.116, 0)
   \<and> status (bus (run [Tick 50 1000, DwellTimer, Tick 100 1000]
                      (updateBus 0 1000 empty_battery_state))) = Stranded"
proof -
  have h: "status (bus empty_battery_state) = Moving \<and> batteryKwh (bus empty_battery_state) \<le> 0
      \<and> \<not> isCharging (bus empty_battery_state)
      \<and> 2 \<le> length (route_path (route empty_battery_state))
      \<and> \<not> dwell_hold 0 (bus empty_battery_state)"
    by (simp add: empty_battery_state_def demo_state_def demo_route_def initializeBuses_def
        dwell_hold_def truthy_def)
  have v: "batteryKwh (bus empty_battery_state) = 0"
    "position (bus empty_battery_state) = Some (0.116, 0)"
    "progress (bus empty_battery_state) = 0.2"
    by (simp_all add: empty_battery_state_def)
  from empty_battery_strands [of empty_battery_state 0 1000 "[]"] h
  have first: "status (bus (updateBus 0 1000 empty_battery_state)) = Stranded"
    "position (bus (updateBus 0 1000 empty_battery_state)) = position (bus empty_battery_state)"
    "progress (bus (updateBus 0 1000 empty_battery_state)) = progress (bus empty_battery_state)"
    "terminal (bus (updateBus 0 1000 empty_battery_state))"
    by blast+
  from empty_battery_strands [of "updateBus 0 1000 empty_battery_state" 0 0
      "[Tick 50 1000, DwellTimer, Tick 100 1000]"] first(4)
  have later: "position (bus (run [Tick 50 1000, DwellTimer, Tick 100 1000]
                        (updateBus 0 1000 empty_battery_state)))
               = position (bus (updateBus 0 1000 empty_battery_state))"
    "status (bus (run [Tick 50 1000, DwellTimer, Tick 100 1000]
                        (updateBus 0 1000 empty_battery_state)))
               = status (bus (updateBus 0 1000 empty_battery_state))"
    by blast+
  show ?thesis using h v first later by simp
qed

text \<open>
  Claim C2 as stated fails: with a route path of fewer than two points \<^verbatim>\<open>moveBus\<close> returns
  before its battery check, and a bus held by a dwell is not updated at all; in both
  states the bus is moving with an empty battery and the tick leaves it moving.
\<close>

theorem empty_battery_no_path_counterexample:
  "status (bus no_path_state) = Moving \<and> batteryKwh (bus no_path_state) = 0
   \<and> \<not> isCharging (bus no_path_state)
   \<and> status (bus (updateBus 0 1000 no_path_state)) = Moving
   \<and> updateBus 0 1000 no_path_state = no_path_state
   \<and> status (bus dwell_held_state) = Moving \<and> batteryKwh (bus dwell_held_state) = 0
   \<and> \<not> isCharging (bus dwell_held_state)
   \<and> status (bus (updateBus 0 1000 dwell_held_state)) = Moving"
  by (simp add: no_path_state_def dwell_held_state_def empty_battery_state_def demo_state_def
      demo_route_def initializeBuses_def updateBus_def moveBus_def truthy_def or_else_def
      Let_def)

lemma calculateDayScore_points:
  "day_points (last (dayScores (score (calculateDayScore s)))) =
     SCORING_dayCompleted
     + (if midDayCharges (stats s) > 0 then SCORING_midDayChargePenalty
        else SCORING_noMidDayChargeBonus)
     + (case find (\<lambda>d. decision_day d = currentDay (week s)) (nightlyCharging_decisions s) of
          None \<Rightarrow> 0
        | Some d \<Rightarrow>
            (let endPercent = targetPercent d
                   - (totalEnergyConsumed (stats s) / config_batteryCapacity (config s)) * 100
             in if endPercent \<ge> 10 \<and> endPercent \<le> 25 then SCORING_efficientChargeBonus
                else if endPercent > 25 then
                  Math_round ((endPercent - 25) / 100 * config_batteryCapacity (config s)
                              * SCORING_overchargePerKwhPenalty)
                else 0))"
  by (simp add: calculateDayScore_def Let_def addDayScore_def addBonus_def addPenalty_def
      split: option.splits)

lemma calculateDayScore_total:
  "score_total (score (calculateDayScore s)) =
     score_total (score s)
     + day_points (last (dayScores (score (calculateDayScore s))))
     + (if midDayCharges (stats s) > 0 then SCORING_midDayChargePenalty else 0)
     + (case find (\<lambda>d. decision_day d = currentDay (week s)) (nightlyCharging_decisions s) of
          None \<Rightarrow> 0
        | Some d \<Rightarrow>
            (let endPercent = targetPercent d
                   - (totalEnergyConsumed (stats s) / config_batteryCapacity (config s)) * 100
             in if endPercent \<ge> 10 \<and> endPercent \<le> 25 then SCORING_efficientChargeBonus
                else 0))"
  by (simp add: calculateDayScore_def Let_def addDayScore_def addBonus_def addPenalty_def
      split: option.splits)

text \<open>
  Claim C5. The day score is the base points plus the mid-day bonus or penalty plus the
  overnight-efficiency adjustment (\<open>calculateDayScore_points\<close>), but the running total does
  not rise by exactly the day score (\<open>calculateDayScore_total\<close>): on a day with one mid-day
  charge and no overnight decision the day score is 50 and the total does not change,
  because \<^verbatim>\<open>addPenalty\<close> has added the penalty of -50 to the total before
  \<^verbatim>\<open>addDayScore\<close> adds the day's 50, which already contains it.
\<close>

theorem calculateDayScore_counts_penalty_twice:
  "midDayCharges (stats charged_day_state) = 1
   \<and> day_points (last (dayScores (score (calculateDayScore charged_day_state)))) = 50
   \<and> map points (penalties (score (calculateDayScore charged_day_state))) = [- 50]
   \<and> score_total (score (calculateDayScore charged_day_state))
       - score_total (score charged_day_state) = 0"
  by (simp add: charged_day_state_def demo_state_def calculateDayScore_def Let_def
      addDayScore_def addPenalty_def SCORING_dayCompleted_def SCORING_midDayChargePenalty_def)

lemma difficulty_reason: "difficulty_name d @ '' difficulty bonus'' \<noteq> perfect_week_reason"
  by (cases d) (simp_all add: perfect_week_reason_def)

lemma addBonus_count:
  "perfect_week_count (addBonus e s)
     = perfect_week_count s + (if reason e = perfect_week_reason then 1 else 0)"
  "perfect_week_points (addBonus e s)
     = perfect_week_points s + (if reason e = perfect_week_reason then points e else 0)"
  "week (addBonus e s) = week s"
  by (simp_all add: perfect_week_count_def perfect_week_points_def addBonus_def)

lemma calculateFinalScore_count:
  "perfect_week_count (calculateFinalScore s)
     = perfect_week_count s + (if totalMidDayCharges (week s) = 0 then 1 else 0)"
  "perfect_week_points (calculateFinalScore s)
     = perfect_week_points s
       + (if totalMidDayCharges (week s) = 0 then SCORING_perfectWeekBonus else 0)"
  using difficulty_reason
  by (simp_all add: calculateFinalScore_def Let_def addBonus_count perfect_week_reason_def)

lemma calculateDayScore_count:
  "perfect_week_count (calculateDayScore s) = perfect_week_count s"
  "perfect_week_points (calculateDayScore s) = perfect_week_points s"
  by (simp_all add: calculateDayScore_def Let_def perfect_week_count_def perfect_week_points_def
      perfect_week_reason_def addDayScore_def addBonus_def addPenalty_def)

lemma advanceDay_week:
  "totalMidDayCharges (week (snd (advanceDay s)))
     = totalMidDayCharges (week s) + midDayCharges (stats s)"
  "fst (advanceDay s) = (currentDay (week s) + 1 \<le> 3)"
  "score (snd (advanceDay s)) = score s"
  by (simp_all add: advanceDay_def Let_def split: option.splits)

lemma handleDayComplete_last_day:
  assumes "3 \<le> currentDay (week s)"
  shows "handleDayComplete s =
     calculateFinalScore (snd (advanceDay (calculateDayScore
       ((stopSimulation s)\<lparr>stats := (stats (stopSimulation s))\<lparr>electricCost :=
          (totalEnergyConsumed (stats (stopSimulation s))
             - midDayChargingKwh (stats (stopSimulation s))) * FUEL_COSTS_electric_overnight
          + midDayChargingCost (stats (stopSimulation s))\<rparr>\<rparr>))))"
proof -
  let ?s2 = "(stopSimulation s)\<lparr>stats := (stats (stopSimulation s))\<lparr>electricCost :=
          (totalEnergyConsumed (stats (stopSimulation s))
             - midDayChargingKwh (stats (stopSimulation s))) * FUEL_COSTS_electric_overnight
          + midDayChargingCost (stats (stopSimulation s))\<rparr>\<rparr>"
  have "week (calculateDayScore ?s2) = week s"
    by (simp add: calculateDayScore_def Let_def addDayScore_def addBonus_def addPenalty_def
        stopSimulation_def)
  then have "\<not> fst (advanceDay (calculateDayScore ?s2))"
    using assms by (simp add: advanceDay_week)
  then show ?thesis
    unfolding handleDayComplete_def Let_def by simp
qed

lemma calculateFinalScore_total:
  "score_total (score (calculateFinalScore s)) =
     (let pattern = (case WEATHER_PATTERNS (weatherPattern (config s)) of
                       Some p \<Rightarrow> p | None \<Rightarrow> WEATHER_PATTERNS_fall);
          optimalOneWay =
            Math_floor ((config_batteryCapacity (config s) * (1 - BATTERY_CONFIG_safetyBuffer)
                         / getEfficiency (config_busType (config s)) Extreme) / 2);
          subtotal = score_total (score s)
            + (if \<bar>guessDistance (config s) - optimalOneWay\<bar> \<le> 3
               then SCORING_perfectRoutePrediction else 0)
            + (if totalMidDayCharges (week s) = 0 then SCORING_perfectWeekBonus else 0);
          multiplier = SCORING_difficultyMultiplier (pattern_difficulty pattern);
          bonusFromDifficulty = Math_round (subtotal * (multiplier - 1))
      in subtotal + (if multiplier \<noteq> 1 \<and> bonusFromDifficulty > 0
                     then bonusFromDifficulty else 0))"
  by (simp add: calculateFinalScore_def Let_def addBonus_def)

lemma calculateDayScore_frame:
  "config (calculateDayScore s) = config s" "week (calculateDayScore s) = week s"
  "stats (calculateDayScore s) = stats s"
  by (simp_all add: calculateDayScore_def Let_def addDayScore_def addBonus_def addPenalty_def)

lemma calculateDayScore_after_cost:
  "score_total (score (calculateDayScore
      ((stopSimulation s)\<lparr>stats := (stats (stopSimulation s))\<lparr>electricCost := c\<rparr>\<rparr>)))
   = score_total (score (calculateDayScore s))"
proof -
  let ?t = "(stopSimulation s)\<lparr>stats := (stats (stopSimulation s))\<lparr>electricCost := c\<rparr>\<rparr>"
  have f: "score ?t = score s" "midDayCharges (stats ?t) = midDayCharges (stats s)"
    "week ?t = week s" "nightlyCharging_decisions ?t = nightlyCharging_decisions s"
    "totalEnergyConsumed (stats ?t) = totalEnergyConsumed (stats s)" "config ?t = config s"
    by (simp_all add: stopSimulation_def)
  show ?thesis
    by (simp only: calculateDayScore_total [of ?t] calculateDayScore_points [of ?t]
        calculateDayScore_total [of s] calculateDayScore_points [of s] f)
qed


lemma advanceDay_config: "config (snd (advanceDay s)) = config s"
  by (simp add: advanceDay_def Let_def split: option.splits)

text \<open>
  Claim C9. The final score is the running total that \<^verbatim>\<open>calculateFinalScore\<close> leaves. It is
  the total before, plus the route-prediction bonus when it is earned, plus the perfect-week
  bonus \<open>SCORING_perfectWeekBonus\<close> exactly when the week's total of mid-day charges is zero,
  plus the difficulty bonus on that sum: the perfect-week bonus enters the score once or not
  at all. When the third day completes, the total before is the total after the day's score
  and the week's total of charges is the total so far plus the day's. In the list of bonuses
  the perfect-week bonus is appended once in the one case and not at all in the other, so
  with none awarded before it occurs exactly once if and only if that total is zero.
\<close>

theorem perfect_week_bonus_once:
  "(let final = (\<lambda>total charges.
          let pattern = (case WEATHER_PATTERNS (weatherPattern (config s)) of
                           Some p \<Rightarrow> p | None \<Rightarrow> WEATHER_PATTERNS_fall);
              optimalOneWay =
                Math_floor ((config_batteryCapacity (config s) * (1 - BATTERY_CONFIG_safetyBuffer)
                             / getEfficiency (config_busType (config s)) Extreme) / 2);
              subtotal = total
                + (if \<bar>guessDistance (config s) - optimalOneWay\<bar> \<le> 3
                   then SCORING_perfectRoutePrediction else 0)
                + (if charges = (0::nat) then SCORING_perfectWeekBonus else 0);
              multiplier = SCORING_difficultyMultiplier (pattern_difficulty pattern);
              bonusFromDifficulty = Math_round (subtotal * (multiplier - 1))
          in subtotal + (if multiplier \<noteq> 1 \<and> bonusFromDifficulty > 0
                         then bonusFromDifficulty else 0))
    in score_total (score (calculateFinalScore s))
         = final (score_total (score s)) (totalMidDayCharges (week s))
       \<and> (3 \<le> currentDay (week s) \<longrightarrow>
            score_total (score (handleDayComplete s))
              = final (score_total (score (calculateDayScore s)))
                  (totalMidDayCharges (week s) + midDayCharges (stats s))))
   \<and> perfect_week_count (calculateFinalScore s)
     = perfect_week_count s + (if totalMidDayCharges (week s) = 0 then 1 else 0)
   \<and> perfect_week_points (calculateFinalScore s)
     = perfect_week_points s
       + (if totalMidDayCharges (week s) = 0 then SCORING_perfectWeekBonus else 0)
   \<and> (3 \<le> currentDay (week s) \<longrightarrow>
        perfect_week_count (handleDayComplete s)
          = perfect_week_count s
            + (if totalMidDayCharges (week s) + midDayCharges (stats s) = 0 then 1 else 0))
   \<and> (3 \<le> currentDay (week s) \<and> perfect_week_count s = 0 \<longrightarrow>
        perfect_week_count (handleDayComplete s) \<le> 1
        \<and> (perfect_week_count (handleDayComplete s) = 1)
            = (totalMidDayCharges (week s) + midDayCharges (stats s) = 0))"
proof -
  let ?c = "(totalEnergyConsumed (stats (stopSimulation s))
             - midDayChargingKwh (stats (stopSimulation s))) * FUEL_COSTS_electric_overnight
          + midDayChargingCost (stats (stopSimulation s))"
  let ?s2 = "(stopSimulation s)\<lparr>stats := (stats (stopSimulation s))\<lparr>electricCost := ?c\<rparr>\<rparr>"
  let ?s4 = "snd (advanceDay (calculateDayScore ?s2))"
  have w: "week (calculateDayScore ?s2) = week s" "stats (calculateDayScore ?s2) = stats ?s2"
    by (simp_all add: calculateDayScore_frame stopSimulation_def)
  have c: "perfect_week_count ?s2 = perfect_week_count s"
    by (simp add: perfect_week_count_def stopSimulation_def)
  have c4: "perfect_week_count ?s4 = perfect_week_count s"
    using calculateDayScore_count(1) [of ?s2] c
    by (simp add: perfect_week_count_def advanceDay_week(3))
  have t4: "totalMidDayCharges (week ?s4)
            = totalMidDayCharges (week s) + midDayCharges (stats s)"
    by (simp only: advanceDay_week(1) w) (simp add: stopSimulation_def)
  have cfg4: "config ?s4 = config s"
    by (simp add: advanceDay_config calculateDayScore_frame stopSimulation_def)
  have tot4: "score_total (score ?s4) = score_total (score (calculateDayScore s))"
    by (simp only: advanceDay_week(3) calculateDayScore_after_cost)
  have last: "3 \<le> currentDay (week s) \<Longrightarrow>
        perfect_week_count (handleDayComplete s)
          = perfect_week_count s
            + (if totalMidDayCharges (week s) + midDayCharges (stats s) = 0 then 1 else 0)"
    by (simp only: handleDayComplete_last_day calculateFinalScore_count(1) c4 t4)
  have total_last: "3 \<le> currentDay (week s) \<Longrightarrow>
        score_total (score (handleDayComplete s)) = score_total (score (calculateFinalScore ?s4))"
    by (simp only: handleDayComplete_last_day)
  have total: "score_total (score (calculateFinalScore ?s4)) =
     (let pattern = (case WEATHER_PATTERNS (weatherPattern (config s)) of
                       Some p \<Rightarrow> p | None \<Rightarrow> WEATHER_PATTERNS_fall);
          optimalOneWay =
            Math_floor ((config_batteryCapacity (config s) * (1 - BATTERY_CONFIG_safetyBuffer)
                         / getEfficiency (config_busType (config s)) Extreme) / 2);
          subtotal = score_total (score (calculateDayScore s))
            + (if \<bar>guessDistance (config s) - optimalOneWay\<bar> \<le> 3
               then SCORING_perfectRoutePrediction else 0)
            + (if totalMidDayCharges (week s) + midDayCharges (stats s) = 0
               then SCORING_perfectWeekBonus else 0);
          multiplier = SCORING_difficultyMultiplier (pattern_difficulty pattern);
          bonusFromDifficulty = Math_round (subtotal * (multiplier - 1))
      in subtotal + (if multiplier \<noteq> 1 \<and> bonusFromDifficulty > 0
                     then bonusFromDifficulty else 0))"
    by (simp only: calculateFinalScore_total [of ?s4] cfg4 tot4 t4)
  show ?thesis
    using calculateFinalScore_count [of s] last calculateFinalScore_total [of s]
      total_last total
    by (auto simp: Let_def)
qed


theorem perfect_week_bonus_once_witness:
  "currentDay (week last_day_state) = 3 \<and> perfect_week_count last_day_state = 0
   \<and> totalMidDayCharges (week last_day_state) + midDayCharges (stats last_day_state) = 0
   \<and> perfect_week_count (handleDayComplete last_day_state) = 1
   \<and> score_total (score (calculateDayScore last_day_state)) = 750
   \<and> score_total (score (handleDayComplete last_day_state)) = 3375
   \<and> totalMidDayCharges (week last_day_charged_state) = 2
   \<and> perfect_week_count (handleDayComplete last_day_charged_state) = 0
   \<and> score_total (score (calculateDayScore last_day_charged_state)) = 750
   \<and> score_total (score (handleDayComplete last_day_charged_state)) = 1875"
proof -
  have v: "currentDay (week last_day_state) = 3" "perfect_week_count last_day_state = 0"
    "totalMidDayCharges (week last_day_state) = 0" "midDayCharges (stats last_day_state) = 0"
    "currentDay (week last_day_charged_state) = 3"
    "perfect_week_count last_day_charged_state = 0"
    "totalMidDayCharges (week last_day_charged_state) = 2"
    "midDayCharges (stats last_day_charged_state) = 0"
    "config last_day_state = demo_config" "config last_day_charged_state = demo_config"
    by (simp_all add: last_day_charged_state_def last_day_state_def demo_state_def
        perfect_week_count_def)
  have d: "score_total (score (calculateDayScore last_day_state)) = 750"
    "score_total (score (calculateDayScore last_day_charged_state)) = 750"
    by (simp_all add: last_day_charged_state_def last_day_state_def demo_state_def
        calculateDayScore_def Let_def addDayScore_def SCORING_dayCompleted_def
        SCORING_noMidDayChargeBonus_def)
  have f: "\<lfloor>425 / 19 :: real\<rfloor> = 22" by (simp add: floor_eq_iff)
  show ?thesis
    using perfect_week_bonus_once [of last_day_state]
      perfect_week_bonus_once [of last_day_charged_state] v d f
    by (simp add: Let_def demo_config_def WEATHER_PATTERNS_def WEATHER_PATTERNS_fall_def
        getEfficiency_def BATTERY_CONFIG_safetyBuffer_def Math_floor_def Math_round_def
        SCORING_perfectRoutePrediction_def SCORING_perfectWeekBonus_def)
qed

lemma checkChargingNeeds_checked:
  "midDayChargeChecked (bus s) \<Longrightarrow> midDayChargeChecked (bus (snd (checkChargingNeeds s)))"
  "progress (bus (snd (checkChargingNeeds s))) = progress (bus s)"
  "arrivedAtSchool (bus (snd (checkChargingNeeds s))) = arrivedAtSchool (bus s)"
  by (simp_all add: checkChargingNeeds_def Let_def stopSimulation_def)

lemma processStopArrival_checked:
  "midDayChargeChecked (bus s) \<Longrightarrow> midDayChargeChecked (bus (processStopArrival now st s))"
  by (simp add: processStopArrival_def Let_def)

lemma checkStopArrivalsLoop_checked:
  "midDayChargeChecked (bus s) \<Longrightarrow> midDayChargeChecked (bus (checkStopArrivalsLoop now n s))"
proof (induction now n s rule: checkStopArrivalsLoop.induct)
  case (1 now n s)
  show ?case
    apply (subst checkStopArrivalsLoop.simps)
    using 1 processStopArrival_checked
    apply (simp add: currentStopIndex_bump_def)
    done
qed

lemma checkStopArrivals_checked:
  "midDayChargeChecked (bus s) \<Longrightarrow> midDayChargeChecked (bus (checkStopArrivals now s))"
  by (simp add: checkStopArrivals_def checkStopArrivalsLoop_checked)

lemma moveBus_finish_checked:
  "midDayChargeChecked (bus s) \<Longrightarrow> midDayChargeChecked (bus (moveBus_finish now s))"
  by (simp add: moveBus_finish_def completeRoute_def Let_def)

lemma moveBus_checked:
  assumes "midDayChargeChecked (bus s)"
  shows "midDayChargeChecked (bus (moveBus now deltaTime s))"
proof -
  let ?d = "SIMULATION_CONFIG_baseSpeedMph * (deltaTime / (3600 * 1000))"
  let ?L = "calculatePathLength (route_path (route s))"
  let ?s1 = "moveBus_advance ?d ?L s"
  have eq: "moveBus now deltaTime s =
      (if length (route_path (route s)) < 2 then s
       else if batteryKwh (bus s) \<le> 0 \<and> \<not> isCharging (bus s) then strand s
       else if ?L = 0 then s
       else if batteryKwh (bus ?s1) \<le> 0 \<and> \<not> isCharging (bus ?s1) then strand ?s1
       else moveBus_finish now (checkStopArrivals now ?s1))"
    unfolding moveBus_def Let_def by (rule refl)
  have a: "midDayChargeChecked (bus ?s1)"
    using assms by (simp add: moveBus_advance_def Let_def)
  have st: "\<And>t. midDayChargeChecked (bus t) \<Longrightarrow> midDayChargeChecked (bus (strand t))"
    by (simp add: strand_def triggerGameOver_def stopSimulation_def)
  show ?thesis
    unfolding eq
    using assms a st [OF assms] st [OF a]
      moveBus_finish_checked [OF checkStopArrivals_checked [OF a], of now now]
    by (simp split: if_splits)
qed

lemma handlers_checked:
  assumes "midDayChargeChecked (bus s)"
  shows "midDayChargeChecked (bus (handleDeadheadTravel deltaTime s))"
    and "midDayChargeChecked (bus (handleReturnFromCharger deltaTime s))"
    and "midDayChargeChecked (bus (handleCharging deltaTime s))"
  using assms
  by (simp_all add: handleDeadheadTravel_def handleReturnFromCharger_def handleCharging_def
      Let_def strand_deadhead_def triggerGameOver_def stopSimulation_def
      split: option.splits prod.splits)

lemma updateBus_checked:
  assumes "midDayChargeChecked (bus s)"
  shows "midDayChargeChecked (bus (updateBus now deltaTime s))"
proof -
  let ?s0 = "if truthy (dwellUntil (bus s)) then s\<lparr>bus := (bus s)\<lparr>dwellUntil := None\<rparr>\<rparr> else s"
  let ?s1 = "if status (bus ?s0) = Waiting then
               ?s0\<lparr>bus := (bus ?s0)\<lparr>status := Moving\<rparr>,
                   route := (route ?s0)\<lparr>route_status := RActive\<rparr>\<rparr>
             else ?s0"
  have s0: "midDayChargeChecked (bus ?s0)" using assms by simp
  have s1: "midDayChargeChecked (bus ?s1)" using s0 by simp
  have eq: "updateBus now deltaTime s =
      (if truthy (dwellUntil (bus s)) \<and> now < or_else (dwellUntil (bus s)) 0 then s
       else if status (bus ?s0) = TravelingToCharger then handleDeadheadTravel deltaTime ?s0
       else if status (bus ?s0) = ReturningFromCharger then
         handleReturnFromCharger deltaTime ?s0
       else if isCharging (bus ?s0) then handleCharging deltaTime ?s0
       else if status (bus ?s1) = Moving then moveBus now deltaTime ?s1 else ?s1)"
    unfolding updateBus_def Let_def by (rule refl)
  show ?thesis
    unfolding eq
    using assms s1 handlers_checked [OF s0, of deltaTime] moveBus_checked [OF s1, of now deltaTime]
    by (simp split: if_splits)
qed

lemma step_checked:
  "midDayChargeChecked (bus s) \<Longrightarrow> midDayChargeChecked (bus (step e s))"
  by (cases e) (simp_all add: updateBus_checked dwellTimeout_def)

lemma run_checked:
  "midDayChargeChecked (bus s) \<Longrightarrow> midDayChargeChecked (bus (run es s))"
proof (induction es arbitrary: s)
  case Nil
  then show ?case by (simp add: run_def)
next
  case (Cons e es)
  from Cons.IH [OF step_checked [OF Cons.prems, of e]] show ?case by (simp add: run_def)
qed

lemma flips_checked: "midDayChargeChecked (bus s) \<Longrightarrow> flips es s = 0"
  by (induction es arbitrary: s) (simp_all add: step_checked)

lemma flips_at_most_once: "flips es s \<le> 1"
proof (induction es arbitrary: s)
  case Nil
  then show ?case by simp
next
  case (Cons e es)
  show ?case
  proof (cases "midDayChargeChecked (bus (step e s))")
    case True
    then show ?thesis by (simp add: flips_checked)
  next
    case False
    then show ?thesis using Cons.IH [of "step e s"] by simp
  qed
qed

lemma moveBus_finish_window:
  assumes "\<not> midDayChargeChecked (bus s)" and "midDayChargeChecked (bus (moveBus_finish now s))"
  shows "0.48 \<le> progress (bus (moveBus_finish now s))
         \<and> progress (bus (moveBus_finish now s)) \<le> 0.52
         \<and> arrivedAtSchool (bus (moveBus_finish now s))"
proof (cases "progress (bus s) \<ge> 0.48 \<and> progress (bus s) \<le> 0.52 \<and> \<not> arrivedAtSchool (bus s)")
  case True
  with assms(1) show ?thesis
    by (simp add: moveBus_finish_def Let_def checkChargingNeeds_checked)
next
  case False
  with assms(1) have "\<not> midDayChargeChecked (bus (moveBus_finish now s))"
    by (auto simp: moveBus_finish_def Let_def completeRoute_def)
  with assms(2) show ?thesis by simp
qed

text \<open>
  Claim C7, as amended. Within a day no tick and no dwell timer resets
  \<open>midDayChargeChecked\<close>, so it goes from false to true at most once. When the progress
  fallback at the end of \<^verbatim>\<open>moveBus\<close> sets it, the bus has arrived at school and its progress
  lies between 0.48 and 0.52.
\<close>

theorem midDayChargeChecked_at_most_once:
  "(midDayChargeChecked (bus s) \<longrightarrow> midDayChargeChecked (bus (run es s)))
   \<and> flips es s \<le> 1
   \<and> (\<not> midDayChargeChecked (bus s) \<and> midDayChargeChecked (bus (moveBus_finish now s)) \<longrightarrow>
        0.48 \<le> progress (bus (moveBus_finish now s))
        \<and> progress (bus (moveBus_finish now s)) \<le> 0.52
        \<and> arrivedAtSchool (bus (moveBus_finish now s)))"
  using run_checked [of s es] flips_at_most_once [of es s] moveBus_finish_window [of s now]
  by blast

theorem midDayChargeChecked_at_most_once_witness:
  "\<not> midDayChargeChecked (bus fallback_state)
   \<and> midDayChargeChecked (bus (moveBus_finish 0 fallback_state))
   \<and> progress (bus (moveBus_finish 0 fallback_state)) = 0.49
   \<and> arrivedAtSchool (bus (moveBus_finish 0 fallback_state))
   \<and> midDayChargeChecked (bus (run [DwellTimer, DwellTimer] (moveBus_finish 0 fallback_state)))
   \<and> flips [DwellTimer, DwellTimer] fallback_state \<le> 1"
proof -
  have h: "\<not> midDayChargeChecked (bus fallback_state)"
    by (simp add: fallback_state_def demo_state_def initializeBuses_def)
  have k: "midDayChargeChecked (bus (moveBus_finish 0 fallback_state))"
    "progress (bus (moveBus_finish 0 fallback_state)) = 0.49"
    by (simp_all add: fallback_state_def demo_state_def demo_route_def initializeBuses_def
        demo_config_def moveBus_finish_def checkChargingNeeds_def Let_def getEfficiency_def
        BATTERY_CONFIG_minReturnCharge_def stopSimulation_def)
  show ?thesis
    using h k midDayChargeChecked_at_most_once [of fallback_state "[DwellTimer, DwellTimer]" 0]
      midDayChargeChecked_at_most_once [of "moveBus_finish 0 fallback_state"
        "[DwellTimer, DwellTimer]" 0]
    by simp
qed

lemma pi_ge_three: "3 \<le> pi"
  using sin_x_le_x [of "pi / 6"] sin_30 by simp

lemma atan2_sin_cos:
  assumes "\<bar>t\<bar> < pi / 2"
  shows "Math_atan2 \<bar>sin t\<bar> (cos t) = \<bar>t\<bar>"
proof -
  have c: "0 < cos t" using cos_gt_zero_pi [of t] assms by (simp add: abs_less_iff)
  have "\<bar>sin t\<bar> / cos t = tan \<bar>t\<bar>"
  proof (cases "0 \<le> t")
    case True
    then have "0 \<le> sin t" using assms pi_gt_zero by (intro sin_ge_zero) simp_all
    with True show ?thesis by (simp add: tan_def)
  next
    case False
    then have "0 \<le> sin (- t)" using assms pi_gt_zero by (intro sin_ge_zero) simp_all
    with False show ?thesis by (simp add: tan_def)
  qed
  moreover have "arctan (tan \<bar>t\<bar>) = \<bar>t\<bar>"
    using assms pi_gt_zero by (intro arctan_tan) simp_all
  ultimately show ?thesis using c by (simp add: Math_atan2_def)
qed

lemma haversine_equator:
  assumes "\<bar>x2 - x1\<bar> < 180"
  shows "haversineDistance (x1, 0) (x2, 0) = 3959 * (\<bar>x2 - x1\<bar> * pi / 180)"
proof -
  define t where "t = (x2 - x1) * pi / 180 / 2"
  have abs_t: "\<bar>t\<bar> = \<bar>x2 - x1\<bar> * pi / 360"
    by (simp add: t_def abs_mult)
  have "\<bar>x2 - x1\<bar> * pi < 180 * pi" using assms by simp
  then have tb: "\<bar>t\<bar> < pi / 2" unfolding abs_t by simp
  have c: "0 < cos t" using cos_gt_zero_pi [of t] tb by (simp add: abs_less_iff)
  have "1 - sin t * sin t = cos t * cos t"
    using cos_squared_eq [of t] by (simp add: power2_eq_square)
  then have root: "sqrt (1 - sin t * sin t) = cos t" using c by simp
  have "haversineDistance (x1, 0) (x2, 0)
        = 3959 * (2 * Math_atan2 (sqrt (sin t * sin t)) (sqrt (1 - sin t * sin t)))"
    by (simp add: haversineDistance_def Let_def t_def)
  also have "\<dots> = 3959 * (2 * \<bar>t\<bar>)"
    unfolding root using atan2_sin_cos [OF tb] by simp
  also have "\<dots> = 3959 * (\<bar>x2 - x1\<bar> * pi / 180)"
    unfolding abs_t by simp
  finally show ?thesis .
qed

lemma interpolateWalk_second_leg:
  assumes "0 < l" and "1 / 2 < p" and "p \<le> 1"
  shows "interpolateWalk lst [a, b, c] [l, l] (p * (l + l)) 0
         = (lerp (fst b) (fst c) (2 * p - 1), lerp (snd b) (snd c) (2 * p - 1))"
proof -
  have e: "p * (l + l) - l = l * (2 * p - 1)" by (simp add: algebra_simps)
  have "0 < l * (2 * p - 1)" using assms by (intro mult_pos_pos) simp_all
  then have first: "\<not> p * (l + l) \<le> 0 + l" using e by linarith
  have "p * (l + l) \<le> 1 * (l + l)" using assms by (intro mult_right_mono) simp_all
  then have second: "p * (l + l) \<le> 0 + l + l" by simp
  have q: "(p * (l + l) - (0 + l)) / l = 2 * p - 1" using assms(1) e by simp
  have l0: "l \<noteq> 0" using assms(1) by simp
  show ?thesis
    by (simp only: interpolateWalk.simps l0 first second q if_True if_False Let_def)
qed

text \<open>
  Claim C7 as stated fails in both parts. A tick of 252 simulated seconds (1.75 miles)
  takes the bus from 47 percent of the route past the school stop, which the stop scan
  therefore misses, to a progress between 50 and 52 percent, where the fallback sets the
  flag: the transition happens after 50 percent. And a bus that strands before school ends its day with the flag
  still false: there is no transition on that day.
\<close>

theorem fallback_after_half_counterexample:
  "\<not> midDayChargeChecked (bus before_school_state)
   \<and> midDayChargeChecked (bus (updateBus 0 252000 before_school_state))
   \<and> progress (bus (updateBus 0 252000 before_school_state)) > 0.5
   \<and> status (bus (updateBus 0 1000 empty_battery_state)) = Stranded
   \<and> gameOver (updateBus 0 1000 empty_battery_state)
   \<and> \<not> midDayChargeChecked (bus (updateBus 0 1000 empty_battery_state))"
proof -
  define s where "s = before_school_state"
  define l :: real where "l = 3959 * (29 / 100 * pi / 180)"
  have lb: "19 < l" "l < 26"
    using pi_ge_three pi_less_4 by (simp_all add: l_def)
  have l0: "0 < l" using lb by simp
  have h1: "haversineDistance (0, 0) (29 / 100, 0) = l"
    and h2: "haversineDistance (29 / 100, 0) (0, 0) = l"
    using haversine_equator [of "29 / 100" 0] haversine_equator [of 0 "29 / 100"]
    by (simp_all add: l_def)
  have path: "route_path (route s) = [(0, 0), (29 / 100, 0), (0, 0)]"
    by (simp add: s_def before_school_state_def demo_state_def demo_route_def)
  have segs: "segmentLengths (route_path (route s)) = [l, l]"
    unfolding path by (simp add: h1 h2)
  have L: "calculatePathLength (route_path (route s)) = l + l"
    unfolding calculatePathLength_def segs by (simp add: path)
  define P where "P = 47 / 100 + (7 / 4) / (l + l)"
  have "(7 / 4) / (l + l) = (7 / 8) / l" by simp
  moreover have "(7 / 8) / 26 < (7 / 8) / l"
    using lb l0 by (intro divide_strict_left_mono) simp_all
  moreover have "(7 / 8) / l < (7 / 8) / 19"
    using lb l0 by (intro divide_strict_left_mono) simp_all
  ultimately have Pb: "1 / 2 < P" "P < 13 / 25" unfolding P_def by simp_all
  define X where "X = 29 / 100 * (2 - 2 * P)"
  have pos: "interpolatePosition (route_path (route s)) P = (X, 0)"
  proof -
    have "interpolatePosition (route_path (route s)) P
          = interpolateWalk (0, 0) [(0, 0), (29 / 100, 0), (0, 0)] [l, l] (P * (l + l)) 0"
      using Pb l0 segs unfolding interpolatePosition_def path
      by (simp add: Let_def path)
    also have "\<dots> = (lerp (29 / 100) 0 (2 * P - 1), lerp 0 0 (2 * P - 1))"
      using interpolateWalk_second_leg [OF l0 Pb(1),
          of "(0, 0)" "(0, 0)" "(29 / 100, 0)" "(0, 0)"] Pb
      by simp
    also have "\<dots> = (X, 0)" by (simp add: lerp_def X_def field_simps)
    finally show ?thesis .
  qed
  define s1 where "s1 = moveBus_advance (7 / 4) (l + l) s"
  have s1: "s1 = s\<lparr>bus := (bus s)\<lparr>progress := P, position := Some (X, 0),
                                   energyConsumed := 133 / 40, batteryKwh := 3067 / 40,
                                   batteryLevel := 3067 / 40, distanceTraveled := 7 / 4\<rparr>,
                    stats := (stats s)\<lparr>totalDistance := 7 / 4,
                                        totalEnergyConsumed := 133 / 40\<rparr>\<rparr>"
  proof -
    have "min 1 (progress (bus s) + (7 / 4) / (l + l)) = P"
      using Pb by (simp add: P_def s_def before_school_state_def)
    then show ?thesis
      unfolding s1_def moveBus_advance_def Let_def
      by (simp add: pos)
        (simp add: s_def before_school_state_def demo_state_def initializeBuses_def
          demo_config_def getEfficiency_def)
  qed
  have away: "\<not> haversineDistance (X, 0) (29 / 100, 0) * 20 < 3"
  proof -
    have dx: "29 / 100 - X = 29 / 100 * (2 * P - 1)"
      by (simp add: X_def field_simps)
    have dpos: "0 < 29 / 100 * (2 * P - 1)" and dsmall: "29 / 100 * (2 * P - 1) < 180"
      using Pb by simp_all
    have ab: "\<bar>29 / 100 - X\<bar> = 29 / 100 * (2 * P - 1)"
      unfolding dx using dpos by (rule abs_of_pos)
    have "haversineDistance (X, 0) (29 / 100, 0)
          = 3959 * (\<bar>29 / 100 - X\<bar> * pi / 180)"
      by (rule haversine_equator) (simp only: ab dsmall)
    also have "\<dots> = l * (2 * P - 1)"
      unfolding ab by (simp add: l_def)
    also have "\<dots> = 7 / 4 - 3 / 50 * l" using l0 by (simp add: P_def algebra_simps)
    finally show ?thesis using lb by simp
  qed
  have scan: "checkStopArrivals 0 s1 = s1"
    unfolding checkStopArrivals_def
    by (subst checkStopArrivalsLoop.simps)
      (simp add: s1 s_def before_school_state_def demo_state_def demo_route_def away
        SIMULATION_CONFIG_arrivalThreshold_def)
  have fin: "midDayChargeChecked (bus (moveBus_finish 0 s1))"
    "progress (bus (moveBus_finish 0 s1)) = P"
    using Pb
    by (simp_all add: s1 s_def before_school_state_def demo_state_def demo_route_def
        initializeBuses_def demo_config_def moveBus_finish_def checkChargingNeeds_def Let_def
        getEfficiency_def BATTERY_CONFIG_minReturnCharge_def stopSimulation_def)
  have alive: "\<not> batteryKwh (bus s1) \<le> 0" by (simp add: s1)
  have mv: "moveBus 0 252000 s = moveBus_finish 0 (checkStopArrivals 0 s1)"
  proof -
    have d: "SIMULATION_CONFIG_baseSpeedMph * (252000 / (3600 * 1000)) = 7 / 4"
      by (simp add: SIMULATION_CONFIG_baseSpeedMph_def)
    have k: "\<not> batteryKwh (bus s) \<le> 0"
      by (simp add: s_def before_school_state_def)
    have n: "l + l \<noteq> 0" using l0 by simp
    show ?thesis
      unfolding moveBus_def Let_def d L s1_def [symmetric]
      using alive k n by (simp add: path)
  qed
  have up: "updateBus 0 252000 s = moveBus 0 252000 s"
    by (simp add: updateBus_def Let_def s_def before_school_state_def demo_state_def
        initializeBuses_def truthy_def)
  have before: "\<not> midDayChargeChecked (bus s)"
    by (simp add: s_def before_school_state_def demo_state_def initializeBuses_def)
  have stranded: "status (bus (updateBus 0 1000 empty_battery_state)) = Stranded
      \<and> gameOver (updateBus 0 1000 empty_battery_state)
      \<and> \<not> midDayChargeChecked (bus (updateBus 0 1000 empty_battery_state))"
    by (simp add: empty_battery_state_def demo_state_def demo_route_def initializeBuses_def
        updateBus_def moveBus_def strand_def triggerGameOver_def stopSimulation_def truthy_def
        Let_def)
  show ?thesis
    using before fin Pb stranded unfolding s_def [symmetric] up mv scan by simp
qed

end
